theory Spec2Isabelle
  imports Main
begin

section \<open>Python values: exceptions, decimal strings, dictionaries\<close>

text \<open>
  Both applications are Flask programs. Every library call may raise; the model writes a
  raised exception as \<open>Inl e\<close> and a returned value as \<open>Inr v\<close>. The classes below are
  the ones the two client libraries (psycopg2, redis-py) and the builtins raise, together
  with the two classes that derive from \<open>BaseException\<close> only: \<open>except Exception\<close>
  does not catch those.
\<close>

datatype exn_class =
    OperationalError | ProgrammingError | DataError
  | ConnectionError | AuthenticationError | TimeoutError | ResponseError
  | ValueError | KeyError | AttributeError | KeyboardInterrupt | SystemExit

datatype py_exn = PyExn exn_class string

fun isinstance_Exception :: "py_exn \<Rightarrow> bool" where
  "isinstance_Exception (PyExn c m) = (c \<noteq> KeyboardInterrupt \<and> c \<noteq> SystemExit)"

fun str_exn :: "py_exn \<Rightarrow> string" where
  "str_exn (PyExn c m) = m"

text \<open>\<open>str(n)\<close> for an integer: decimal digits, most significant first, \<open>-\<close> for a negative one.\<close>

definition digit_char :: "int \<Rightarrow> char" where
  "digit_char d = ''0123456789'' ! nat d"

definition digit_val :: "char \<Rightarrow> int" where
  "digit_val c = int (length (takeWhile (\<lambda>x. x \<noteq> c) ''0123456789''))"

function str_digits :: "int \<Rightarrow> string" where
  "str_digits n =
     (if n < 10 then [digit_char n] else str_digits (n div 10) @ [digit_char (n mod 10)])"
  by pat_completeness auto
termination
  by (relation "measure nat") auto

declare str_digits.simps [simp del]

definition str_int :: "int \<Rightarrow> string" where
  "str_int i = (if i < 0 then CHR ''-'' # str_digits (- i) else str_digits i)"

text \<open>Reading a decimal string back: the value of the digits, and of an optional sign.\<close>

definition digits_val :: "string \<Rightarrow> int" where
  "digits_val s = foldl (\<lambda>a c. 10 * a + digit_val c) 0 s"

definition int_of_str :: "string \<Rightarrow> int" where
  "int_of_str s =
     (case s of
        [] \<Rightarrow> 0
      | c # ds \<Rightarrow> if c = CHR ''-'' then - digits_val ds else digits_val s)"

text \<open>
  The JSON documents the handlers return, and Python dictionaries: a dictionary keeps
  its keys in insertion order, and assigning to a key that is present replaces the value
  where it stands.
\<close>

datatype json = JNull | JInt int | JStr string | JObj "(string \<times> json) list"

type_synonym pydict = "(string \<times> json) list"

fun setitem :: "string \<Rightarrow> json \<Rightarrow> pydict \<Rightarrow> pydict" where
  "setitem k v [] = [(k, v)]"
| "setitem k v (p # d) = (if fst p = k then (k, v) # d else p # setitem k v d)"

definition getitem :: "pydict \<Rightarrow> string \<Rightarrow> json option" where
  "getitem d k = map_of d k"

text \<open>A document without one of its fields (used to compare documents modulo the timestamp).\<close>

definition without :: "string \<Rightarrow> pydict \<Rightarrow> pydict" where
  "without k d = filter (\<lambda>p. fst p \<noteq> k) d"

section \<open>The world outside the process\<close>

text \<open>
  The second application talks to a PostgreSQL database and to a Redis cache. Their
  contents are state; whether they answer is the environment's choice. The surroundings
  record holds what the environment decides: for the connection attempt and for every
  statement or command, the exception it raises (\<open>None\<close>: it succeeds), the server-side
  counts the statistics queries read, and the two clock readings. The surroundings are
  taken as fixed while one handler runs and may change freely between two requests.
  The database and the cache are shared with other clients; where a property depends on
  what they do in the middle of a handler (\<open>test_cache\<close>), their commands are a
  parameter of the handler.
\<close>

datatype sql =
    InsertRequest | UpdateTotalRequests | Commit
  | CountPublicTables | SelectTotalRequests | CountActivity

datatype redis_cmd = INCR | INFO | DBSIZE | GET | SETEX

record surroundings =
  db_connect :: "py_exn option"
  db_fault :: "sql \<Rightarrow> py_exn option"
  public_tables :: int
  db_sessions :: int
  redis_ping :: "py_exn option"
  redis_fault :: "redis_cmd \<Rightarrow> py_exn option"
  redis_server_info :: "(string \<times> string) list"
  clock :: int
  now_isoformat :: string

text \<open>
  A row of table \<open>requests\<close> (the serial id and the defaulted timestamp are left out), the
  rows of table \<open>metrics\<close> as (metric_name, metric_value), and the Redis keyspace: for each
  key its string value and, when it has one, the second at which it expires.
\<close>

record request_row =
  ip_address :: "string option"
  user_agent :: string
  endpoint :: string

record database =
  requests :: "request_row list"
  metrics :: "(string \<times> int) list"

type_synonym keyspace = "(string \<times> string \<times> int option) list"

record world =
  environ :: surroundings
  db :: database
  redis_data :: keyspace
  stdout :: "string list"

text \<open>The Flask request a handler runs for: the two attributes \<open>log_request\<close> reads.\<close>

record flask_request =
  remote_addr :: "string option"
  header_user_agent :: "string option"

datatype pg_connection = PgConnection
datatype redis_client = RedisClient

definition py_print :: "string \<Rightarrow> world \<Rightarrow> world" where
  "py_print s w = w\<lparr>stdout := stdout w @ [s]\<rparr>"

subsection \<open>PostgreSQL through psycopg2\<close>

definition psycopg2_connect :: "world \<Rightarrow> py_exn + pg_connection" where
  "psycopg2_connect w =
     (case db_connect (environ w) of Some e \<Rightarrow> Inl e | None \<Rightarrow> Inr PgConnection)"

text \<open>
  Statements run in the connection's transaction: they work on a copy of the tables, and
  \<open>commit\<close> stores the copy. Column \<open>metric_value\<close> is a 32-bit \<open>INTEGER\<close>: PostgreSQL
  refuses an update that leaves the range.
\<close>

definition execute_insert_request :: "surroundings \<Rightarrow> request_row \<Rightarrow> database \<Rightarrow> py_exn + database" where
  "execute_insert_request env row tx =
     (case db_fault env InsertRequest of
        Some e \<Rightarrow> Inl e
      | None \<Rightarrow> Inr (tx\<lparr>requests := requests tx @ [row]\<rparr>))"

definition execute_update_total_requests :: "surroundings \<Rightarrow> database \<Rightarrow> py_exn + database" where
  "execute_update_total_requests env tx =
     (case db_fault env UpdateTotalRequests of
        Some e \<Rightarrow> Inl e
      | None \<Rightarrow>
          if list_ex (\<lambda>r. fst r = ''total_requests'' \<and> snd r + 1 > 2147483647) (metrics tx)
          then Inl (PyExn DataError ''integer out of range'')
          else Inr (tx\<lparr>metrics :=
                  map (\<lambda>r. if fst r = ''total_requests'' then (fst r, snd r + 1) else r) (metrics tx)\<rparr>))"

definition commit :: "database \<Rightarrow> world \<Rightarrow> py_exn + world" where
  "commit tx w =
     (case db_fault (environ w) Commit of
        Some e \<Rightarrow> Inl e
      | None \<Rightarrow> Inr (w\<lparr>db := tx\<rparr>))"

definition fetch_count_public_tables :: "world \<Rightarrow> py_exn + int" where
  "fetch_count_public_tables w =
     (case db_fault (environ w) CountPublicTables of
        Some e \<Rightarrow> Inl e
      | None \<Rightarrow> Inr (public_tables (environ w)))"

definition fetch_total_requests :: "world \<Rightarrow> py_exn + int option" where
  "fetch_total_requests w =
     (case db_fault (environ w) SelectTotalRequests of
        Some e \<Rightarrow> Inl e
      | None \<Rightarrow> Inr (map_of (metrics (db w)) ''total_requests''))"

definition fetch_count_activity :: "world \<Rightarrow> py_exn + int" where
  "fetch_count_activity w =
     (case db_fault (environ w) CountActivity of
        Some e \<Rightarrow> Inl e
      | None \<Rightarrow> Inr (db_sessions (environ w)))"

subsection \<open>Redis through redis-py\<close>

text \<open>
  A key is live until its expiry second. \<open>INCR\<close> reads the value as a canonical decimal
  64-bit integer (the string must be exactly what \<open>str\<close> prints for it), refuses any
  other string and an overflow, and keeps the expiry of a live key.
\<close>

definition live_value :: "world \<Rightarrow> string \<Rightarrow> string option" where
  "live_value w k =
     (case map_of (redis_data w) k of
        None \<Rightarrow> None
      | Some (v, None) \<Rightarrow> Some v
      | Some (v, Some t) \<Rightarrow> if clock (environ w) < t then Some v else None)"

definition live_expiry :: "world \<Rightarrow> string \<Rightarrow> int option" where
  "live_expiry w k =
     (case map_of (redis_data w) k of
        None \<Rightarrow> None
      | Some (v, None) \<Rightarrow> None
      | Some (v, Some t) \<Rightarrow> if clock (environ w) < t then Some t else None)"

fun store :: "string \<Rightarrow> string \<times> int option \<Rightarrow> keyspace \<Rightarrow> keyspace" where
  "store k e [] = [(k, e)]"
| "store k e (p # ks) = (if fst p = k then (k, e) # ks else p # store k e ks)"

definition redis_int :: "string \<Rightarrow> int option" where
  "redis_int s =
     (let n = int_of_str s
      in if str_int n = s \<and> - 9223372036854775808 \<le> n \<and> n \<le> 9223372036854775807
         then Some n else None)"

definition redis_incr :: "string \<Rightarrow> world \<Rightarrow> py_exn + (int \<times> world)" where
  "redis_incr k w =
     (case redis_fault (environ w) INCR of
        Some e \<Rightarrow> Inl e
      | None \<Rightarrow>
          (case live_value w k of
             None \<Rightarrow> Inr (1, w\<lparr>redis_data := store k (str_int 1, None) (redis_data w)\<rparr>)
           | Some s \<Rightarrow>
               (case redis_int s of
                  None \<Rightarrow> Inl (PyExn ResponseError ''value is not an integer or out of range'')
                | Some n \<Rightarrow>
                    if n = 9223372036854775807
                    then Inl (PyExn ResponseError ''increment or decrement would overflow'')
                    else Inr (n + 1,
                           w\<lparr>redis_data := store k (str_int (n + 1), live_expiry w k) (redis_data w)\<rparr>))))"

definition redis_setex :: "string \<Rightarrow> int \<Rightarrow> string \<Rightarrow> world \<Rightarrow> py_exn + world" where
  "redis_setex k ttl v w =
     (case redis_fault (environ w) SETEX of
        Some e \<Rightarrow> Inl e
      | None \<Rightarrow>
          if ttl \<le> 0 then Inl (PyExn ResponseError ''invalid expire time in setex command'')
          else Inr (w\<lparr>redis_data := store k (v, Some (clock (environ w) + ttl)) (redis_data w)\<rparr>))"

definition redis_get :: "string \<Rightarrow> world \<Rightarrow> py_exn + string option" where
  "redis_get k w =
     (case redis_fault (environ w) GET of Some e \<Rightarrow> Inl e | None \<Rightarrow> Inr (live_value w k))"

definition redis_info :: "world \<Rightarrow> py_exn + (string \<times> string) list" where
  "redis_info w =
     (case redis_fault (environ w) INFO of
        Some e \<Rightarrow> Inl e
      | None \<Rightarrow> Inr (redis_server_info (environ w)))"

definition redis_dbsize :: "world \<Rightarrow> py_exn + int" where
  "redis_dbsize w =
     (case redis_fault (environ w) DBSIZE of
        Some e \<Rightarrow> Inl e
      | None \<Rightarrow> Inr (int (length (remdups (map fst (redis_data w))))))"

section \<open>The second application (03-compose-orchestration/webapp/app.py)\<close>

text \<open>
  Every function takes the world and returns the world it leaves, together with either
  the exception that escapes it (\<open>Inl\<close>) or its value (\<open>Inr\<close>). A \<open>try\<close> block with
  \<open>except Exception\<close> turns an escaping exception of a class derived from \<open>Exception\<close>
  into the handler's branch, and passes any other one on.

  What raises in the model is a connection attempt, \<open>cur.execute\<close>, \<open>conn.commit\<close> and a
  Redis command. Opening a cursor and closing a cursor or a connection are taken to
  succeed, and a connection object and a Redis client are true in an \<open>if\<close>. \<open>jsonify\<close>
  serialises the dictionary it is given; a handler's value in the model is that dictionary.
\<close>

definition get_db_connection :: "world \<Rightarrow> (py_exn + pg_connection option) \<times> world" where
  "get_db_connection w =
     (case psycopg2_connect w of
        Inr conn \<Rightarrow> (Inr (Some conn), w)
      | Inl e \<Rightarrow>
          if isinstance_Exception e
          then (Inr None, py_print (''Database connection error: '' @ str_exn e) w)
          else (Inl e, w))"

text \<open>\<open>redis.Redis(...)\<close> only builds the client; \<open>r.ping()\<close> is the first command sent.\<close>

definition get_redis_connection :: "world \<Rightarrow> (py_exn + redis_client option) \<times> world" where
  "get_redis_connection w =
     (case redis_ping (environ w) of
        None \<Rightarrow> (Inr (Some RedisClient), w)
      | Some e \<Rightarrow>
          if isinstance_Exception e
          then (Inr None, py_print (''Redis connection error: '' @ str_exn e) w)
          else (Inl e, w))"

text \<open>
  The body of the \<open>try\<close> of \<open>log_request\<close>: the insert, the counter update and the commit.
  Nothing is stored unless the commit is reached.
\<close>

definition log_request_try :: "string \<Rightarrow> flask_request option \<Rightarrow> world \<Rightarrow> py_exn + world" where
  "log_request_try ep request w =
     (let row = \<lparr>ip_address = (case request of Some rq \<Rightarrow> remote_addr rq | None \<Rightarrow> Some ''127.0.0.1''),
                 user_agent =
                   (case request of
                      Some rq \<Rightarrow> (case header_user_agent rq of Some ua \<Rightarrow> ua | None \<Rightarrow> ''Unknown'')
                    | None \<Rightarrow> ''System''),
                 endpoint = ep\<rparr>
      in case execute_insert_request (environ w) row (db w) of
           Inl e \<Rightarrow> Inl e
         | Inr tx1 \<Rightarrow>
             (case execute_update_total_requests (environ w) tx1 of
                Inl e \<Rightarrow> Inl e
              | Inr tx2 \<Rightarrow> commit tx2 w))"

definition log_request :: "string \<Rightarrow> flask_request option \<Rightarrow> world \<Rightarrow> (py_exn + unit) \<times> world" where
  "log_request ep request w =
     (case get_db_connection w of
        (Inl e, w1) \<Rightarrow> (Inl e, w1)
      | (Inr None, w1) \<Rightarrow> (Inr (), w1)
      | (Inr (Some conn), w1) \<Rightarrow>
          (case log_request_try ep request w1 of
             Inr w2 \<Rightarrow> (Inr (), w2)
           | Inl e \<Rightarrow>
               if isinstance_Exception e
               then (Inr (), py_print (''Request logging error: '' @ str_exn e) w1)
               else (Inl e, w1)))"

text \<open>
  \<open>get_system_stats\<close> fills the dictionary \<open>stats\<close> key by key. The body of its first
  \<open>try\<close> returns the exception that interrupted it, if any, and the dictionary as far as
  it was filled: the \<open>except\<close> branch then overwrites what is there.
\<close>

definition db_stats_try :: "world \<Rightarrow> pydict \<Rightarrow> py_exn option \<times> pydict" where
  "db_stats_try w stats =
     (case fetch_count_public_tables w of
        Inl e \<Rightarrow> (Some e, stats)
      | Inr table_count \<Rightarrow>
          (let stats1 = setitem ''table_count'' (JInt table_count) stats
           in case fetch_total_requests w of
                Inl e \<Rightarrow> (Some e, stats1)
              | Inr result \<Rightarrow>
                  (let stats2 = setitem ''total_requests''
                                  (JInt (case result of Some v \<Rightarrow> v | None \<Rightarrow> 0)) stats1
                   in case fetch_count_activity w of
                        Inl e \<Rightarrow> (Some e, stats2)
                      | Inr n \<Rightarrow>
                          (None,
                           setitem ''db_status_class'' (JStr ''status-healthy'')
                             (setitem ''db_status'' (JStr ''CONNECTED'')
                               (setitem ''db_connections'' (JInt n) stats2))))))"

definition db_stats_failed :: "string \<Rightarrow> pydict \<Rightarrow> pydict" where
  "db_stats_failed status stats =
     setitem ''db_connections'' (JInt 0)
       (setitem ''total_requests'' (JInt 0)
         (setitem ''table_count'' (JInt 0)
           (setitem ''db_status_class'' (JStr ''status-error'')
             (setitem ''db_status'' (JStr status) stats))))"

definition db_stats :: "world \<Rightarrow> pydict \<Rightarrow> (py_exn + pydict) \<times> world" where
  "db_stats w stats =
     (case get_db_connection w of
        (Inl e, w1) \<Rightarrow> (Inl e, w1)
      | (Inr (Some conn), w1) \<Rightarrow>
          (case db_stats_try w1 stats of
             (None, stats') \<Rightarrow> (Inr stats', w1)
           | (Some e, stats') \<Rightarrow>
               if isinstance_Exception e
               then (Inr (db_stats_failed ''ERROR'' stats'), w1)
               else (Inl e, w1))
      | (Inr None, w1) \<Rightarrow> (Inr (db_stats_failed ''DISCONNECTED'' stats), w1))"

text \<open>
  The second \<open>try\<close>. \<open>int(r.get('cache_hits') or 0)\<close>: a missing key and the empty string
  give 0; any other string goes to Python's \<open>int\<close>, which is not code of this repository
  and is taken as the parameter \<open>py_int\<close> (\<open>None\<close>: it raises \<open>ValueError\<close>).
\<close>

definition redis_stats_try :: "(string \<Rightarrow> int option) \<Rightarrow> world \<Rightarrow> pydict \<Rightarrow> py_exn option \<times> pydict" where
  "redis_stats_try py_int w stats =
     (case redis_info w of
        Inl e \<Rightarrow> (Some e, stats)
      | Inr info \<Rightarrow>
          (let stats1 =
                 setitem ''redis_memory''
                   (JStr (case map_of info ''used_memory_human'' of Some m \<Rightarrow> m | None \<Rightarrow> ''N/A''))
                   (setitem ''redis_status_class'' (JStr ''status-healthy'')
                     (setitem ''redis_status'' (JStr ''CONNECTED'') stats))
           in case redis_dbsize w of
                Inl e \<Rightarrow> (Some e, stats1)
              | Inr keys \<Rightarrow>
                  (let stats2 = setitem ''redis_keys'' (JInt keys) stats1
                   in case redis_get ''cache_hits'' w of
                        Inl e \<Rightarrow> (Some e, stats2)
                      | Inr None \<Rightarrow> (None, setitem ''cache_hits'' (JInt 0) stats2)
                      | Inr (Some s) \<Rightarrow>
                          if s = [] then (None, setitem ''cache_hits'' (JInt 0) stats2)
                          else (case py_int s of
                                  None \<Rightarrow>
                                    (Some (PyExn ValueError ''invalid literal for int() with base 10''),
                                     stats2)
                                | Some n \<Rightarrow> (None, setitem ''cache_hits'' (JInt n) stats2)))))"

definition redis_stats_failed :: "string \<Rightarrow> pydict \<Rightarrow> pydict" where
  "redis_stats_failed status stats =
     setitem ''cache_hits'' (JInt 0)
       (setitem ''redis_keys'' (JInt 0)
         (setitem ''redis_memory'' (JStr ''N/A'')
           (setitem ''redis_status_class'' (JStr ''status-error'')
             (setitem ''redis_status'' (JStr status) stats))))"

definition redis_stats :: "(string \<Rightarrow> int option) \<Rightarrow> world \<Rightarrow> pydict \<Rightarrow> (py_exn + pydict) \<times> world" where
  "redis_stats py_int w stats =
     (case get_redis_connection w of
        (Inl e, w1) \<Rightarrow> (Inl e, w1)
      | (Inr (Some r), w1) \<Rightarrow>
          (case redis_stats_try py_int w1 stats of
             (None, stats') \<Rightarrow> (Inr stats', w1)
           | (Some e, stats') \<Rightarrow>
               if isinstance_Exception e
               then (Inr (redis_stats_failed ''ERROR'' stats'), w1)
               else (Inl e, w1))
      | (Inr None, w1) \<Rightarrow> (Inr (redis_stats_failed ''DISCONNECTED'' stats), w1))"

definition get_system_stats :: "(string \<Rightarrow> int option) \<Rightarrow> world \<Rightarrow> (py_exn + pydict) \<times> world" where
  "get_system_stats py_int w =
     (case db_stats w [] of
        (Inl e, w1) \<Rightarrow> (Inl e, w1)
      | (Inr stats, w1) \<Rightarrow> redis_stats py_int w1 stats)"

text \<open>
  \<open>home\<close>. \<open>r.incr\<close> stands outside any \<open>try\<close>: what it raises escapes the handler.
  After \<open>get_system_stats\<close> the handler formats \<open>system_info\<close> and renders the template
  with \<open>stats\<close> in its context; that part reads the process environment and calls Flask
  and \<open>os\<close>, which are not code of this repository. It is taken as the parameter
  \<open>render\<close>, which turns \<open>stats\<close> into the page or raises, and touches neither the
  database nor the cache.
\<close>

definition home ::
  "(pydict \<Rightarrow> py_exn + string) \<Rightarrow> (string \<Rightarrow> int option) \<Rightarrow> flask_request \<Rightarrow> world \<Rightarrow>
     (py_exn + string) \<times> world" where
  "home render py_int request w =
     (case log_request ''/'' (Some request) w of
        (Inl e, w1) \<Rightarrow> (Inl e, w1)
      | (Inr u, w1) \<Rightarrow>
          (case get_redis_connection w1 of
             (Inl e, w2) \<Rightarrow> (Inl e, w2)
           | (Inr r, w2) \<Rightarrow>
               (case (case r of
                        Some c \<Rightarrow>
                          (case redis_incr ''cache_hits'' w2 of
                             Inl e \<Rightarrow> Inl e
                           | Inr (n, w3) \<Rightarrow> Inr w3)
                      | None \<Rightarrow> Inr w2) of
                  Inl e \<Rightarrow> (Inl e, w2)
                | Inr w3 \<Rightarrow>
                    (case get_system_stats py_int w3 of
                       (Inl e, w4) \<Rightarrow> (Inl e, w4)
                     | (Inr stats, w4) \<Rightarrow> (render stats, w4)))))"

text \<open>
  \<open>health_status['services'][name] = value\<close>: the assignment into the nested
  dictionary. The dictionary literal of \<open>health\<close> always has the key \<open>services\<close>.
\<close>

definition set_service :: "string \<Rightarrow> string \<Rightarrow> pydict \<Rightarrow> pydict" where
  "set_service name v d =
     (case getitem d ''services'' of
        Some (JObj services) \<Rightarrow> setitem ''services'' (JObj (setitem name (JStr v) services)) d
      | _ \<Rightarrow> d)"

definition health :: "flask_request \<Rightarrow> world \<Rightarrow> (py_exn + pydict) \<times> world" where
  "health request w =
     (case log_request ''/health'' (Some request) w of
        (Inl e, w1) \<Rightarrow> (Inl e, w1)
      | (Inr u, w1) \<Rightarrow>
          (let health_status =
                 [(''status'', JStr ''healthy''),
                  (''timestamp'', JStr (now_isoformat (environ w1))),
                  (''services'', JObj [])]
           in case get_db_connection w1 of
                (Inl e, w2) \<Rightarrow> (Inl e, w2)
              | (Inr conn, w2) \<Rightarrow>
                  (let health_status1 =
                         (case conn of
                            Some c \<Rightarrow> set_service ''database'' ''healthy'' health_status
                          | None \<Rightarrow>
                              setitem ''status'' (JStr ''degraded'')
                                (set_service ''database'' ''unhealthy'' health_status))
                   in case get_redis_connection w2 of
                        (Inl e, w3) \<Rightarrow> (Inl e, w3)
                      | (Inr r, w3) \<Rightarrow>
                          (Inr (case r of
                                  Some c \<Rightarrow> set_service ''redis'' ''healthy'' health_status1
                                | None \<Rightarrow>
                                    setitem ''status'' (JStr ''degraded'')
                                      (set_service ''redis'' ''unhealthy'' health_status1)),
                           w3))))"

text \<open>
  The body of the \<open>try\<close> of \<open>test_cache\<close>. The key is built from \<open>int(time.time())\<close>, the
  value from \<open>datetime.now().isoformat()\<close>. What \<open>setex\<close> stored stays stored when a later
  command raises.

  \<open>r.setex\<close> and \<open>r.get\<close> are two commands, and the handler holds no lock: the other
  clients of the cache (other requests among them, which build the same key during the
  same second) may run their commands in between. The parameter \<open>interleaved\<close> is what
  those commands do to the keyspace between the \<open>SETEX\<close> and the \<open>GET\<close> of this call; the
  identity stands for a handler that runs alone.
\<close>

definition test_cache_try :: "(keyspace \<Rightarrow> keyspace) \<Rightarrow> world \<Rightarrow> (py_exn + pydict) \<times> world" where
  "test_cache_try interleaved w =
     (let test_key = ''test:'' @ str_int (clock (environ w));
          test_value = ''Hello from Redis at '' @ now_isoformat (environ w)
      in case redis_setex test_key 60 test_value w of
           Inl e \<Rightarrow> (Inl e, w)
         | Inr w1 \<Rightarrow>
             (let w2 = w1\<lparr>redis_data := interleaved (redis_data w1)\<rparr>
              in case redis_get test_key w2 of
                   Inl e \<Rightarrow> (Inl e, w2)
                 | Inr retrieved_value \<Rightarrow>
                     (case redis_info w2 of
                        Inl e \<Rightarrow> (Inl e, w2)
                      | Inr info \<Rightarrow>
                          (case redis_dbsize w2 of
                             Inl e \<Rightarrow> (Inl e, w2)
                           | Inr total_keys \<Rightarrow>
                               (Inr [(''status'', JStr ''success''),
                                     (''test_key'', JStr test_key),
                                     (''test_value'', JStr test_value),
                                     (''retrieved_value'',
                                        (case retrieved_value of Some v \<Rightarrow> JStr v | None \<Rightarrow> JNull)),
                                     (''redis_version'',
                                        (case map_of info ''redis_version'' of Some v \<Rightarrow> JStr v | None \<Rightarrow> JNull)),
                                     (''memory_usage'',
                                        (case map_of info ''used_memory_human'' of Some v \<Rightarrow> JStr v | None \<Rightarrow> JNull)),
                                     (''total_keys'', JInt total_keys),
                                     (''timestamp'', JStr (now_isoformat (environ w2)))],
                                w2)))))"

definition test_cache ::
  "(keyspace \<Rightarrow> keyspace) \<Rightarrow> flask_request \<Rightarrow> world \<Rightarrow> (py_exn + pydict) \<times> world" where
  "test_cache interleaved request w =
     (case log_request ''/api/test-cache'' (Some request) w of
        (Inl e, w1) \<Rightarrow> (Inl e, w1)
      | (Inr u, w1) \<Rightarrow>
          (case get_redis_connection w1 of
             (Inl e, w2) \<Rightarrow> (Inl e, w2)
           | (Inr (Some r), w2) \<Rightarrow>
               (case test_cache_try interleaved w2 of
                  (Inr doc, w3) \<Rightarrow> (Inr doc, w3)
                | (Inl e, w3) \<Rightarrow>
                    if isinstance_Exception e
                    then (Inr [(''status'', JStr ''error''), (''message'', JStr (str_exn e))], w3)
                    else (Inl e, w3))
           | (Inr None, w2) \<Rightarrow>
               (Inr [(''status'', JStr ''error''), (''message'', JStr ''Cannot connect to Redis'')], w2)))"

definition api_stats :: "(string \<Rightarrow> int option) \<Rightarrow> flask_request \<Rightarrow> world \<Rightarrow> (py_exn + pydict) \<times> world" where
  "api_stats py_int request w =
     (case log_request ''/api/stats'' (Some request) w of
        (Inl e, w1) \<Rightarrow> (Inl e, w1)
      | (Inr u, w1) \<Rightarrow> get_system_stats py_int w1)"

section \<open>The first application (02-images-best-practices/app.py)\<close>

text \<open>
  Its \<open>health\<close> reads the clock, the host's memory use and the variable \<open>APP_VERSION\<close>,
  and nothing else. The memory figure is a float the host library computes; it is passed
  in as the JSON value it becomes. The function is named \<open>health_images\<close> here, the name
  \<open>health\<close> being taken by the second application's.
\<close>

record host =
  host_now_isoformat :: string
  host_memory_mb :: json
  host_app_version :: "string option"

definition health_images :: "host \<Rightarrow> pydict" where
  "health_images h =
     [(''status'', JStr ''healthy''),
      (''timestamp'', JStr (host_now_isoformat h)),
      (''memory_mb'', host_memory_mb h),
      (''version'', JStr (case host_app_version h of Some v \<Rightarrow> v | None \<Rightarrow> ''1.0.0''))]"

section \<open>Vocabulary of the properties\<close>

text \<open>
  An environment without interrupts: whatever the connection attempts, the statements
  and the commands raise is an instance of \<open>Exception\<close> (a library error), not a
  \<open>KeyboardInterrupt\<close> or a \<open>SystemExit\<close> arriving in the middle of a call.
\<close>

definition catchable :: "py_exn option \<Rightarrow> bool" where
  "catchable x = (case x of None \<Rightarrow> True | Some e \<Rightarrow> isinstance_Exception e)"

definition no_interrupt :: "world \<Rightarrow> bool" where
  "no_interrupt w =
     (catchable (db_connect (environ w)) \<and> catchable (redis_ping (environ w)) \<and>
      list_all (\<lambda>s. catchable (db_fault (environ w) s))
        [InsertRequest, UpdateTotalRequests, Commit,
         CountPublicTables, SelectTotalRequests, CountActivity] \<and>
      list_all (\<lambda>c. catchable (redis_fault (environ w) c)) [INCR, INFO, DBSIZE, GET, SETEX])"

text \<open>The per-dependency entries of a health document, in the order the document lists them.\<close>

definition services_of :: "pydict \<Rightarrow> pydict" where
  "services_of doc = (case getitem doc ''services'' of Some (JObj s) \<Rightarrow> s | _ \<Rightarrow> [])"

text \<open>
  The database answers the statistics queries: the connection is made and none of the
  three queries of \<open>get_system_stats\<close> raises.
\<close>

definition db_answers :: "surroundings \<Rightarrow> bool" where
  "db_answers env =
     (db_connect env = None \<and> db_fault env CountPublicTables = None \<and>
      db_fault env SelectTotalRequests = None \<and> db_fault env CountActivity = None)"

text \<open>The request count the database holds: the first \<open>total_requests\<close> row of \<open>metrics\<close>.\<close>

definition stored_total :: "world \<Rightarrow> int" where
  "stored_total w = (case map_of (metrics (db w)) ''total_requests'' of Some v \<Rightarrow> v | None \<Rightarrow> 0)"

text \<open>The request count a statistics document reports.\<close>

definition reported_total :: "pydict \<Rightarrow> int option" where
  "reported_total stats = (case getitem stats ''total_requests'' of Some (JInt n) \<Rightarrow> Some n | _ \<Rightarrow> None)"

text \<open>
  Successive calls of \<open>/api/stats\<close>. Between two calls nothing writes to the database or
  to the cache; only the surroundings change, to the ones given for each call. The result
  lists the request counts of the documents returned, in call order (a call that an
  interrupt kills returns no document).
\<close>

fun api_stats_calls ::
  "(string \<Rightarrow> int option) \<Rightarrow> (flask_request \<times> surroundings) list \<Rightarrow> world \<Rightarrow> int list" where
  "api_stats_calls py_int [] w = []"
| "api_stats_calls py_int (c # cs) w =
     (case api_stats py_int (fst c) (w\<lparr>environ := snd c\<rparr>) of
        (Inl e, w') \<Rightarrow> api_stats_calls py_int cs w'
      | (Inr stats, w') \<Rightarrow>
          (case reported_total stats of
             None \<Rightarrow> api_stats_calls py_int cs w'
           | Some n \<Rightarrow> n # api_stats_calls py_int cs w'))"

text \<open>
  The counter behind key \<open>cache_hits\<close>, as \<open>INCR\<close> reads it: 0 for a missing key, the
  integer the string spells otherwise (\<open>None\<close> when it spells none).
\<close>

definition cache_hits_counter :: "world \<Rightarrow> int option" where
  "cache_hits_counter w =
     (case live_value w ''cache_hits'' of None \<Rightarrow> Some 0 | Some s \<Rightarrow> redis_int s)"

subsection \<open>Concrete surroundings, worlds and requests\<close>

definition calm :: surroundings where
  "calm = \<lparr>db_connect = None, db_fault = (\<lambda>s. None), public_tables = 2, db_sessions = 6,
           redis_ping = None, redis_fault = (\<lambda>c. None),
           redis_server_info = [(''redis_version'', ''7.2.4''), (''used_memory_human'', ''1.05M'')],
           clock = 1700000000, now_isoformat = ''2023-11-14T22:13:20.000123''\<rparr>"

definition db_outage :: surroundings where
  "db_outage = calm\<lparr>db_connect := Some (PyExn OperationalError ''connection refused'')\<rparr>"

definition stats_down :: surroundings where
  "stats_down =
     calm\<lparr>db_fault := (\<lambda>s. if s = CountActivity
                              then Some (PyExn OperationalError ''server closed the connection unexpectedly'')
                              else None)\<rparr>"

definition redis_outage :: surroundings where
  "redis_outage = calm\<lparr>redis_ping := Some (PyExn ConnectionError ''Error 111 connecting to cache:6379'')\<rparr>"

definition redis_auth_failure :: surroundings where
  "redis_auth_failure = calm\<lparr>redis_ping := Some (PyExn AuthenticationError ''Authentication required.'')\<rparr>"

definition redis_timeout :: surroundings where
  "redis_timeout = calm\<lparr>redis_ping := Some (PyExn TimeoutError ''Timeout connecting to server'')\<rparr>"

definition later :: surroundings where
  "later = calm\<lparr>clock := 1700000075, now_isoformat := ''2023-11-14T22:14:35.500000'', db_sessions := 9\<rparr>"

definition monitor :: flask_request where
  "monitor = \<lparr>remote_addr = Some ''172.18.0.7'', header_user_agent = None\<rparr>"

definition world0 :: world where
  "world0 = \<lparr>environ = calm,
            db = \<lparr>requests = [], metrics = [(''total_requests'', 5), (''db_connections'', 0)]\<rparr>,
            redis_data = [(''cache_hits'', ''41'', None)],
            stdout = []\<rparr>"

definition browser :: flask_request where
  "browser = \<lparr>remote_addr = Some ''172.18.0.1'', header_user_agent = Some ''curl/8.5.0''\<rparr>"

text \<open>
  A handler running alone, and the \<open>SETEX\<close> of another \<open>/api/test-cache\<close> request of the
  same second (the same key, a value written some microseconds later) arriving between
  the two commands of this one.
\<close>

definition alone :: "keyspace \<Rightarrow> keyspace" where
  "alone ks = ks"

definition same_second_request :: "keyspace \<Rightarrow> keyspace" where
  "same_second_request ks =
     store ''test:1700000000'' (''Hello from Redis at 2023-11-14T22:13:20.000391'', Some 1700000060) ks"

text \<open>The document a handler returned (empty when an exception escaped it).\<close>

definition document_of :: "(py_exn + pydict) \<times> world \<Rightarrow> pydict" where
  "document_of result = (case fst result of Inr doc \<Rightarrow> doc | Inl e \<Rightarrow> [])"

text \<open>
  Stand-ins for the examples: Python's \<open>int\<close> on canonical decimals, and a renderer that
  shows the two status lines of \<open>system_info\<close>.
\<close>

definition render0 :: "pydict \<Rightarrow> py_exn + string" where
  "render0 stats =
     (case (getitem stats ''db_status'', getitem stats ''redis_status'') of
        (Some (JStr d), Some (JStr r)) \<Rightarrow> Inr (''Database: '' @ d @ '' Redis: '' @ r)
      | _ \<Rightarrow> Inl (PyExn KeyError ''db_status''))"


definition py_int0 :: "string \<Rightarrow> int option" where
  "py_int0 s = redis_int s"

section \<open>Basic facts\<close>

subsection \<open>Dictionaries, printing and interrupts\<close>

lemma getitem_setitem: "getitem (setitem k v d) k' = (if k' = k then Some v else getitem d k')"
  by (induction d) (auto simp: getitem_def)

lemma environ_py_print [simp]: "environ (py_print s w) = environ w"
  by (simp add: py_print_def)

lemma db_py_print [simp]: "db (py_print s w) = db w"
  by (simp add: py_print_def)

lemma redis_data_py_print [simp]: "redis_data (py_print s w) = redis_data w"
  by (simp add: py_print_def)

lemma no_interrupt_sql: "no_interrupt w \<Longrightarrow> db_fault (environ w) s = Some e \<Longrightarrow> isinstance_Exception e"
  by (cases s) (auto simp: no_interrupt_def catchable_def)

lemma no_interrupt_cmd: "no_interrupt w \<Longrightarrow> redis_fault (environ w) c = Some e \<Longrightarrow> isinstance_Exception e"
  by (cases c) (auto simp: no_interrupt_def catchable_def)

lemma no_interrupt_connect: "no_interrupt w \<Longrightarrow> db_connect (environ w) = Some e \<Longrightarrow> isinstance_Exception e"
  by (auto simp: no_interrupt_def catchable_def)

lemma no_interrupt_ping: "no_interrupt w \<Longrightarrow> redis_ping (environ w) = Some e \<Longrightarrow> isinstance_Exception e"
  by (auto simp: no_interrupt_def catchable_def)

lemma no_interrupt_environ: "environ w' = environ w \<Longrightarrow> no_interrupt w' = no_interrupt w"
  by (simp add: no_interrupt_def)

lemma get_db_connection_cases:
  "get_db_connection w =
     (case db_connect (environ w) of
        None \<Rightarrow> (Inr (Some PgConnection), w)
      | Some e \<Rightarrow>
          if isinstance_Exception e
          then (Inr None, py_print (''Database connection error: '' @ str_exn e) w)
          else (Inl e, w))"
  by (simp add: get_db_connection_def psycopg2_connect_def split: option.splits)

lemma get_db_connection_environ: "get_db_connection w = (r, w') \<Longrightarrow> environ w' = environ w"
  by (auto simp: get_db_connection_cases split: option.splits if_splits)

lemma get_db_connection_db: "get_db_connection w = (r, w') \<Longrightarrow> db w' = db w \<and> redis_data w' = redis_data w"
  by (auto simp: get_db_connection_cases split: option.splits if_splits)

lemma get_redis_connection_environ: "get_redis_connection w = (r, w') \<Longrightarrow> environ w' = environ w"
  by (auto simp: get_redis_connection_def split: option.splits if_splits)

lemma get_redis_connection_db: "get_redis_connection w = (r, w') \<Longrightarrow> db w' = db w \<and> redis_data w' = redis_data w"
  by (auto simp: get_redis_connection_def split: option.splits if_splits)

lemma get_db_connection_returns:
  "no_interrupt w \<Longrightarrow> \<exists>c w'. get_db_connection w = (Inr c, w') \<and> (c = None) = (db_connect (environ w) \<noteq> None)"
  by (auto simp: get_db_connection_cases split: option.splits dest: no_interrupt_connect)

lemma get_redis_connection_returns:
  "no_interrupt w \<Longrightarrow> \<exists>c w'. get_redis_connection w = (Inr c, w') \<and> (c = None) = (redis_ping (environ w) \<noteq> None)"
  by (auto simp: get_redis_connection_def split: option.splits dest: no_interrupt_ping)

lemma log_request_try_environ: "log_request_try ep rq w = Inr w' \<Longrightarrow> environ w' = environ w \<and> redis_data w' = redis_data w"
  by (auto simp: log_request_try_def Let_def commit_def split: sum.splits option.splits)

lemma log_request_environ: "log_request ep rq w = (r, w') \<Longrightarrow> environ w' = environ w"
  by (auto simp: log_request_def get_db_connection_cases split: option.splits if_splits sum.splits
           dest: log_request_try_environ)

lemma log_request_redis_data: "log_request ep rq w = (r, w') \<Longrightarrow> redis_data w' = redis_data w"
  by (auto simp: log_request_def get_db_connection_cases split: option.splits if_splits sum.splits
           dest: log_request_try_environ)

lemma log_request_try_catchable:
  "no_interrupt w \<Longrightarrow> log_request_try ep rq w = Inl e \<Longrightarrow> isinstance_Exception e"
  by (auto simp: log_request_try_def Let_def commit_def execute_insert_request_def
                 execute_update_total_requests_def
           split: sum.splits option.splits if_splits dest: no_interrupt_sql)

lemma log_request_returns: "no_interrupt w \<Longrightarrow> \<exists>w'. log_request ep rq w = (Inr (), w')"
  by (auto simp: log_request_def get_db_connection_cases split: option.splits sum.splits
           dest: no_interrupt_connect log_request_try_catchable)

subsection \<open>Decimal strings\<close>

lemma digit_cases: "0 \<le> d \<Longrightarrow> d < 10 \<Longrightarrow> d = 0 \<or> d = 1 \<or> d = 2 \<or> d = 3 \<or> d = 4 \<or> d = 5 \<or> d = 6 \<or> d = 7 \<or> d = 8 \<or> d = (9::int)"
  by arith

lemma digit_val_digit_char: "0 \<le> d \<Longrightarrow> d < 10 \<Longrightarrow> digit_val (digit_char d) = d"
  using digit_cases [of d] by (auto simp: digit_val_def digit_char_def)

lemma digit_char_not_minus: "0 \<le> d \<Longrightarrow> d < 10 \<Longrightarrow> digit_char d \<noteq> CHR ''-''"
  using digit_cases [of d] by (auto simp: digit_char_def)

lemma digits_val_append: "digits_val (s @ [c]) = 10 * digits_val s + digit_val c"
  by (simp add: digits_val_def)

lemma digits_val_str_digits: "0 \<le> n \<Longrightarrow> digits_val (str_digits n) = n"
proof (induction n rule: str_digits.induct)
  case (1 n)
  show ?case
  proof (cases "n < 10")
    case True
    with 1(2) show ?thesis
      by (subst str_digits.simps) (simp add: digits_val_def digit_val_digit_char)
  next
    case False
    then have "digits_val (str_digits (n div 10)) = n div 10"
      using 1 by simp
    with False show ?thesis
      by (subst str_digits.simps) (simp add: digits_val_append digit_val_digit_char)
  qed
qed

lemma str_digits_nonempty: "str_digits n \<noteq> []"
  by (subst str_digits.simps) simp

lemma hd_str_digits: "0 \<le> n \<Longrightarrow> hd (str_digits n) \<noteq> CHR ''-''"
proof (induction n rule: str_digits.induct)
  case (1 n)
  show ?case
  proof (cases "n < 10")
    case True
    with 1(2) show ?thesis
      by (subst str_digits.simps) (simp add: digit_char_not_minus)
  next
    case False
    then have "hd (str_digits (n div 10)) \<noteq> CHR ''-''"
      using 1 by simp
    with False show ?thesis
      by (subst str_digits.simps) (simp add: str_digits_nonempty)
  qed
qed

lemma int_of_str_str_int: "int_of_str (str_int i) = i"
proof (cases "i < 0")
  case True
  then show ?thesis
    by (simp add: int_of_str_def str_int_def digits_val_str_digits)
next
  case False
  then have nn: "0 \<le> i" by simp
  obtain c ds where s: "str_digits i = c # ds"
    using str_digits_nonempty [of i] by (cases "str_digits i") auto
  have "c \<noteq> CHR ''-''"
    using hd_str_digits [OF nn] s by simp
  then show ?thesis
    using False s digits_val_str_digits [OF nn] by (simp add: int_of_str_def str_int_def)
qed

lemma str_int_inject: "str_int i = str_int j \<Longrightarrow> i = j"
  by (metis int_of_str_str_int)

lemma redis_int_str_int:
  "- 9223372036854775808 \<le> n \<Longrightarrow> n \<le> 9223372036854775807 \<Longrightarrow> redis_int (str_int n) = Some n"
  by (simp add: redis_int_def int_of_str_str_int)

lemma redis_int_range: "redis_int s = Some n \<Longrightarrow> - 9223372036854775808 \<le> n \<and> n \<le> 9223372036854775807 \<and> str_int n = s"
  by (auto simp: redis_int_def Let_def split: if_splits)

subsection \<open>The health document\<close>

lemma health_document:
  assumes "health rq w = (Inr doc, w')"
  shows "doc =
     [(''status'', JStr (if db_connect (environ w) = None \<and> redis_ping (environ w) = None
                         then ''healthy'' else ''degraded'')),
      (''timestamp'', JStr (now_isoformat (environ w))),
      (''services'',
         JObj [(''database'', JStr (if db_connect (environ w) = None then ''healthy'' else ''unhealthy'')),
               (''redis'', JStr (if redis_ping (environ w) = None then ''healthy'' else ''unhealthy''))])]"
proof -
  obtain r1 w1 where l: "log_request ''/health'' (Some rq) w = (r1, w1)"
    by (cases "log_request ''/health'' (Some rq) w")
  have e1: "environ w1 = environ w"
    using l by (rule log_request_environ)
  obtain r2 w2 where d: "get_db_connection w1 = (r2, w2)"
    by (cases "get_db_connection w1")
  have e2: "environ w2 = environ w"
    using get_db_connection_environ [OF d] e1 by simp
  show ?thesis
    using assms l d e1 e2
    by (auto simp: health_def Let_def get_db_connection_cases get_redis_connection_def
                   set_service_def getitem_def
             split: sum.splits option.splits if_splits)
qed

lemma health_returns:
  assumes "no_interrupt w"
  shows "\<exists>doc w'. health rq w = (Inr doc, w')"
proof -
  obtain w1 where l: "log_request ''/health'' (Some rq) w = (Inr (), w1)"
    using log_request_returns [OF assms] by blast
  have n1: "no_interrupt w1"
    using no_interrupt_environ [OF log_request_environ [OF l]] assms by simp
  obtain c w2 where d: "get_db_connection w1 = (Inr c, w2)"
    using get_db_connection_returns [OF n1] by blast
  have n2: "no_interrupt w2"
    using no_interrupt_environ [OF get_db_connection_environ [OF d]] n1 by simp
  obtain r w3 where p: "get_redis_connection w2 = (Inr r, w3)"
    using get_redis_connection_returns [OF n2] by blast
  show ?thesis
    using l d p by (simp add: health_def Let_def)
qed

subsection \<open>Statistics\<close>

lemma db_stats_world: "db_stats w stats = (r, w') \<Longrightarrow> environ w' = environ w \<and> db w' = db w \<and> redis_data w' = redis_data w"
  by (auto simp: db_stats_def get_db_connection_cases split: option.splits if_splits prod.splits)

lemma redis_stats_world: "redis_stats py_int w stats = (r, w') \<Longrightarrow> environ w' = environ w \<and> db w' = db w \<and> redis_data w' = redis_data w"
  by (auto simp: redis_stats_def get_redis_connection_def split: option.splits if_splits prod.splits)

lemma get_system_stats_world:
  "get_system_stats py_int w = (r, w') \<Longrightarrow> environ w' = environ w \<and> db w' = db w \<and> redis_data w' = redis_data w"
  by (auto simp: get_system_stats_def split: prod.splits sum.splits dest!: db_stats_world redis_stats_world)

lemma db_stats_try_catchable:
  "no_interrupt w \<Longrightarrow> db_stats_try w stats = (Some e, stats') \<Longrightarrow> isinstance_Exception e"
  by (auto simp: db_stats_try_def Let_def fetch_count_public_tables_def fetch_total_requests_def
                 fetch_count_activity_def
           split: sum.splits option.splits dest: no_interrupt_sql)

lemma redis_stats_try_catchable:
  "no_interrupt w \<Longrightarrow> redis_stats_try py_int w stats = (Some e, stats') \<Longrightarrow> isinstance_Exception e"
  by (auto simp: redis_stats_try_def Let_def redis_info_def redis_dbsize_def redis_get_def
           split: sum.splits option.splits if_splits dest: no_interrupt_cmd)

lemma db_stats_returns: "no_interrupt w \<Longrightarrow> \<exists>stats' w'. db_stats w stats = (Inr stats', w')"
  by (auto simp: db_stats_def get_db_connection_cases
           split: option.splits prod.splits dest: no_interrupt_connect db_stats_try_catchable)

lemma redis_stats_returns: "no_interrupt w \<Longrightarrow> \<exists>stats' w'. redis_stats py_int w stats = (Inr stats', w')"
  by (auto simp: redis_stats_def get_redis_connection_def
           split: option.splits prod.splits dest: no_interrupt_ping redis_stats_try_catchable)

lemma get_system_stats_returns:
  assumes "no_interrupt w"
  shows "\<exists>stats w'. get_system_stats py_int w = (Inr stats, w')"
proof -
  obtain s1 w1 where d: "db_stats w [] = (Inr s1, w1)"
    using db_stats_returns [OF assms] by blast
  have "no_interrupt w1"
    using assms db_stats_world [OF d] by (simp add: no_interrupt_def)
  then obtain s2 w2 where "redis_stats py_int w1 s1 = (Inr s2, w2)"
    using redis_stats_returns by blast
  with d show ?thesis
    by (simp add: get_system_stats_def)
qed

lemma api_stats_returns:
  assumes "no_interrupt w"
  shows "\<exists>stats w'. api_stats py_int rq w = (Inr stats, w')"
proof -
  obtain w1 where l: "log_request ''/api/stats'' (Some rq) w = (Inr (), w1)"
    using log_request_returns [OF assms] by blast
  have "no_interrupt w1"
    using no_interrupt_environ [OF log_request_environ [OF l]] assms by simp
  then obtain stats w2 where "get_system_stats py_int w1 = (Inr stats, w2)"
    using get_system_stats_returns by blast
  with l show ?thesis
    by (simp add: api_stats_def)
qed

lemma redis_stats_keeps:
  assumes "redis_stats py_int w stats = (Inr stats', w')"
    and "k \<notin> {''redis_status'', ''redis_status_class'', ''redis_memory'', ''redis_keys'', ''cache_hits''}"
  shows "getitem stats' k = getitem stats k"
  using assms
  by (auto simp: redis_stats_def redis_stats_try_def redis_stats_failed_def Let_def getitem_setitem
           split: option.splits if_splits prod.splits sum.splits)

lemma db_stats_failed_zero:
  "getitem (db_stats_failed status stats) ''total_requests'' = Some (JInt 0) \<and>
   getitem (db_stats_failed status stats) ''table_count'' = Some (JInt 0) \<and>
   getitem (db_stats_failed status stats) ''db_connections'' = Some (JInt 0)"
  by (simp add: db_stats_failed_def getitem_setitem)

lemma db_stats_try_raises:
  "\<not> (db_fault (environ w) CountPublicTables = None \<and> db_fault (environ w) SelectTotalRequests = None \<and>
      db_fault (environ w) CountActivity = None) \<Longrightarrow> \<exists>e stats'. db_stats_try w stats = (Some e, stats')"
  by (auto simp: db_stats_try_def Let_def fetch_count_public_tables_def fetch_total_requests_def
                 fetch_count_activity_def split: option.splits)

lemma db_stats_outage:
  assumes "db_stats w stats = (Inr stats', w')" and "\<not> db_answers (environ w)"
  shows "getitem stats' ''total_requests'' = Some (JInt 0) \<and>
         getitem stats' ''table_count'' = Some (JInt 0) \<and>
         getitem stats' ''db_connections'' = Some (JInt 0)"
proof (cases "db_connect (environ w)")
  case (Some e)
  with assms(1) have "stats' = db_stats_failed ''DISCONNECTED'' stats"
    by (auto simp: db_stats_def get_db_connection_cases split: if_splits)
  then show ?thesis
    using db_stats_failed_zero by simp
next
  case None
  with assms(2) obtain e s where t: "db_stats_try w stats = (Some e, s)"
    using db_stats_try_raises [of w stats] by (auto simp: db_answers_def)
  with None assms(1) have "stats' = db_stats_failed ''ERROR'' s"
    by (auto simp: db_stats_def get_db_connection_cases split: if_splits)
  then show ?thesis
    using db_stats_failed_zero by simp
qed

lemma db_stats_answered:
  assumes "db_answers (environ w)"
  shows "\<exists>stats'. db_stats w [] = (Inr stats', w) \<and>
           getitem stats' ''total_requests'' = Some (JInt (stored_total w))"
  using assms
  by (simp add: db_answers_def db_stats_def get_db_connection_cases db_stats_try_def Let_def
                fetch_count_public_tables_def fetch_total_requests_def fetch_count_activity_def
                getitem_setitem stored_total_def getitem_def
           split: option.splits)

lemma get_system_stats_outage:
  assumes "get_system_stats py_int w = (Inr stats, w')" and "\<not> db_answers (environ w)"
  shows "getitem stats ''total_requests'' = Some (JInt 0) \<and>
         getitem stats ''table_count'' = Some (JInt 0) \<and>
         getitem stats ''db_connections'' = Some (JInt 0)"
proof -
  obtain s1 w1 where d: "db_stats w [] = (Inr s1, w1)" and r: "redis_stats py_int w1 s1 = (Inr stats, w')"
    using assms(1) by (auto simp: get_system_stats_def split: prod.splits sum.splits)
  show ?thesis
    using db_stats_outage [OF d assms(2)]
    by (simp add: redis_stats_keeps [OF r])
qed

lemma get_system_stats_answered:
  assumes "get_system_stats py_int w = (Inr stats, w')" and "db_answers (environ w)"
  shows "reported_total stats = Some (stored_total w)"
proof -
  obtain s1 where d: "db_stats w [] = (Inr s1, w)"
    and t: "getitem s1 ''total_requests'' = Some (JInt (stored_total w))"
    using db_stats_answered [OF assms(2)] by blast
  have r: "redis_stats py_int w s1 = (Inr stats, w')"
    using assms(1) d by (simp add: get_system_stats_def)
  show ?thesis
    using t by (simp add: reported_total_def redis_stats_keeps [OF r])
qed

subsection \<open>The stored request count never goes down\<close>

lemma map_of_increment:
  "map_of (map (\<lambda>r. if fst r = k then (fst r, snd r + 1) else r) m) k = map_option (\<lambda>v. v + (1::int)) (map_of m k)"
  by (induction m) auto

lemma log_request_try_total:
  "log_request_try ep rq w = Inr w' \<Longrightarrow> stored_total w \<le> stored_total w'"
  by (auto simp: log_request_try_def Let_def commit_def execute_insert_request_def
                 execute_update_total_requests_def stored_total_def map_of_increment
           split: sum.splits option.splits if_splits)

lemma log_request_total: "log_request ep rq w = (r, w') \<Longrightarrow> stored_total w \<le> stored_total w'"
  by (auto simp: log_request_def get_db_connection_cases stored_total_def
           split: option.splits if_splits sum.splits dest!: log_request_try_total)

lemma api_stats_total:
  assumes "api_stats py_int rq w = (r, w')"
  shows "stored_total w \<le> stored_total w'"
proof -
  obtain r1 w1 where l: "log_request ''/api/stats'' (Some rq) w = (r1, w1)"
    by (cases "log_request ''/api/stats'' (Some rq) w")
  show ?thesis
  proof (cases r1)
    case (Inl e)
    with assms l have "w' = w1" by (simp add: api_stats_def)
    with l show ?thesis using log_request_total by blast
  next
    case (Inr u)
    with assms l have "get_system_stats py_int w1 = (r, w')" by (simp add: api_stats_def)
    then have "db w' = db w1" using get_system_stats_world by blast
    then have "stored_total w' = stored_total w1" by (simp add: stored_total_def)
    with log_request_total [OF l] show ?thesis by simp
  qed
qed

lemma api_stats_reports_stored:
  assumes "api_stats py_int rq w = (Inr stats, w')" and "db_answers (environ w)"
  shows "reported_total stats = Some (stored_total w')"
proof -
  obtain w1 where l: "log_request ''/api/stats'' (Some rq) w = (Inr (), w1)"
    and g: "get_system_stats py_int w1 = (Inr stats, w')"
    using assms(1) by (auto simp: api_stats_def split: prod.splits sum.splits)
  have "db_answers (environ w1)"
    using assms(2) log_request_environ [OF l] by simp
  then have "reported_total stats = Some (stored_total w1)"
    using g get_system_stats_answered by blast
  moreover have "db w' = db w1" using g get_system_stats_world by blast
  ultimately show ?thesis by (simp add: stored_total_def)
qed

lemma api_stats_calls_bounded:
  "list_all (\<lambda>c. db_answers (snd c)) calls \<Longrightarrow>
   sorted (api_stats_calls py_int calls w) \<and>
   list_all (\<lambda>n. stored_total w \<le> n) (api_stats_calls py_int calls w)"
proof (induction calls arbitrary: w)
  case Nil
  then show ?case by simp
next
  case (Cons c cs)
  let ?w = "w\<lparr>environ := snd c\<rparr>"
  obtain r w' where a: "api_stats py_int (fst c) ?w = (r, w')"
    by (cases "api_stats py_int (fst c) ?w")
  have up: "stored_total w \<le> stored_total w'"
    using api_stats_total [OF a] by (simp add: stored_total_def)
  have ih: "sorted (api_stats_calls py_int cs w') \<and>
            list_all (\<lambda>n. stored_total w' \<le> n) (api_stats_calls py_int cs w')"
    using Cons by simp
  then have rest: "list_all (\<lambda>n. stored_total w \<le> n) (api_stats_calls py_int cs w')"
    using up by (auto simp: list_all_iff)
  show ?case
  proof (cases r)
    case (Inl e)
    with a ih rest show ?thesis by simp
  next
    case (Inr stats)
    have "db_answers (environ ?w)" using Cons.prems by simp
    then have rep: "reported_total stats = Some (stored_total w')"
      using a Inr api_stats_reports_stored by blast
    with a Inr ih up show ?thesis
      by (auto simp: list_all_iff)
  qed
qed

lemma api_stats_after_outage:
  "api_stats_calls py_int0 [(browser, calm), (browser, db_outage)] world0 = [6, 0]"
  by code_simp

subsection \<open>The cache\<close>

lemma map_of_store: "map_of (store k e ks) k' = (if k' = k then Some e else map_of ks k')"
  by (induction ks) auto

lemma live_expiry_future: "live_expiry w k = Some t \<Longrightarrow> clock (environ w) < t"
  by (auto simp: live_expiry_def split: option.splits if_splits)

lemma live_value_stored:
  assumes "x = None \<or> (\<exists>t. x = Some t \<and> clock (environ w) < t)"
  shows "live_value (w\<lparr>redis_data := store k (v, x) (redis_data w)\<rparr>) k = Some v"
  using assms by (auto simp: live_value_def map_of_store)

lemma live_value_incremented:
  "live_value (w\<lparr>redis_data := store k (v, live_expiry w k) (redis_data w)\<rparr>) k = Some v"
proof (rule live_value_stored)
  show "live_expiry w k = None \<or> (\<exists>t. live_expiry w k = Some t \<and> clock (environ w) < t)"
    using live_expiry_future [of w k] by (cases "live_expiry w k") auto
qed

lemma live_value_cong:
  "environ w' = environ w \<Longrightarrow> redis_data w' = redis_data w \<Longrightarrow> live_value w' k = live_value w k"
  by (auto simp: live_value_def split: option.splits)

lemma cache_hits_counter_cong:
  "environ w' = environ w \<Longrightarrow> redis_data w' = redis_data w \<Longrightarrow> cache_hits_counter w' = cache_hits_counter w"
  using live_value_cong [of w' w "''cache_hits''"] by (simp add: cache_hits_counter_def)

lemma redis_incr_counts:
  assumes "redis_incr ''cache_hits'' w = Inr (m, w')"
  shows "\<exists>n. cache_hits_counter w = Some n \<and> cache_hits_counter w' = Some (n + 1) \<and> environ w' = environ w"
proof (cases "live_value w ''cache_hits''")
  case None
  with assms have w': "w' = w\<lparr>redis_data := store ''cache_hits'' (str_int 1, None) (redis_data w)\<rparr>"
    by (auto simp: redis_incr_def split: option.splits)
  have "live_value w' ''cache_hits'' = Some (str_int 1)"
    unfolding w' by (rule live_value_stored) simp
  then have "cache_hits_counter w' = Some 1"
    by (simp add: cache_hits_counter_def redis_int_str_int)
  with None w' show ?thesis
    by (simp add: cache_hits_counter_def)
next
  case (Some s)
  with assms obtain n where n: "redis_int s = Some n" and top: "n \<noteq> 9223372036854775807"
    and w': "w' = w\<lparr>redis_data := store ''cache_hits'' (str_int (n + 1), live_expiry w ''cache_hits'') (redis_data w)\<rparr>"
    by (auto simp: redis_incr_def split: option.splits if_splits)
  have range: "- 9223372036854775808 \<le> n + 1" "n + 1 \<le> 9223372036854775807"
    using redis_int_range [OF n] top by auto
  have "live_value w' ''cache_hits'' = Some (str_int (n + 1))"
    unfolding w' by (rule live_value_incremented)
  then have "cache_hits_counter w' = Some (n + 1)"
    using range by (simp add: cache_hits_counter_def redis_int_str_int)
  with Some n w' show ?thesis
    by (simp add: cache_hits_counter_def)
qed

lemma redis_incr_returns:
  assumes "redis_fault (environ w) INCR = None" and "cache_hits_counter w = Some n"
    and "n < 9223372036854775807"
  shows "\<exists>m w'. redis_incr ''cache_hits'' w = Inr (m, w')"
  using assms by (auto simp: redis_incr_def cache_hits_counter_def split: option.splits)

lemma home_world:
  assumes "log_request ''/'' (Some rq) w = (Inr (), w1)"
    and "get_redis_connection w1 = (Inr r, w2)"
    and "(case r of
            Some c \<Rightarrow> (case redis_incr ''cache_hits'' w2 of Inl e \<Rightarrow> Inl e | Inr (n, w3) \<Rightarrow> Inr w3)
          | None \<Rightarrow> Inr w2) = Inr w3"
  shows "cache_hits_counter (snd (home render py_int rq w)) = cache_hits_counter w3"
proof -
  obtain r4 w4 where g: "get_system_stats py_int w3 = (r4, w4)"
    by (cases "get_system_stats py_int w3")
  have "snd (home render py_int rq w) = w4"
    using assms g by (simp add: home_def split: sum.splits)
  moreover have "cache_hits_counter w4 = cache_hits_counter w3"
    using get_system_stats_world [OF g] cache_hits_counter_cong [of w4 w3] by simp
  ultimately show ?thesis by simp
qed

lemma home_during_redis_outage:
  "cache_hits_counter (world0\<lparr>environ := redis_outage\<rparr>) = Some 41 \<and>
   cache_hits_counter (snd (home render0 py_int0 browser (world0\<lparr>environ := redis_outage\<rparr>))) = Some 41 \<and>
   fst (home render0 py_int0 browser (world0\<lparr>environ := redis_outage\<rparr>)) =
     Inr ''Database: CONNECTED Redis: DISCONNECTED''"
  by code_simp

subsection \<open>The cache test\<close>

lemma test_cache_try_document:
  assumes "test_cache_try f w = (Inr doc, w')"
  shows "redis_fault (environ w) SETEX = None \<and> redis_fault (environ w) GET = None \<and>
         environ w' = environ w \<and>
         redis_data w' =
           f (store (''test:'' @ str_int (clock (environ w)))
                (''Hello from Redis at '' @ now_isoformat (environ w), Some (clock (environ w) + 60))
                (redis_data w)) \<and>
         getitem doc ''status'' = Some (JStr ''success'') \<and>
         getitem doc ''test_key'' = Some (JStr (''test:'' @ str_int (clock (environ w)))) \<and>
         getitem doc ''test_value'' = Some (JStr (''Hello from Redis at '' @ now_isoformat (environ w))) \<and>
         getitem doc ''retrieved_value'' =
           Some (case live_value w' (''test:'' @ str_int (clock (environ w))) of
                   Some x \<Rightarrow> JStr x | None \<Rightarrow> JNull)"
proof -
  let ?k = "''test:'' @ str_int (clock (environ w))"
  let ?v = "''Hello from Redis at '' @ now_isoformat (environ w)"
  let ?w1 = "w\<lparr>redis_data := store ?k (?v, Some (clock (environ w) + 60)) (redis_data w)\<rparr>"
  let ?w2 = "?w1\<lparr>redis_data := f (redis_data ?w1)\<rparr>"
  from assms have sf: "redis_fault (environ w) SETEX = None" and s: "redis_setex ?k 60 ?v w = Inr ?w1"
    by (auto simp: test_cache_try_def Let_def redis_setex_def split: sum.splits option.splits)
  from assms s obtain rv info total_keys where g: "redis_get ?k ?w2 = Inr rv"
    and w': "w' = ?w2"
    and doc: "doc =
            [(''status'', JStr ''success''),
             (''test_key'', JStr ?k),
             (''test_value'', JStr ?v),
             (''retrieved_value'', (case rv of Some v \<Rightarrow> JStr v | None \<Rightarrow> JNull)),
             (''redis_version'', (case map_of info ''redis_version'' of Some v \<Rightarrow> JStr v | None \<Rightarrow> JNull)),
             (''memory_usage'', (case map_of info ''used_memory_human'' of Some v \<Rightarrow> JStr v | None \<Rightarrow> JNull)),
             (''total_keys'', JInt total_keys),
             (''timestamp'', JStr (now_isoformat (environ ?w2)))]"
    by (auto simp: test_cache_try_def Let_def split: sum.splits)
  from g have gf: "redis_fault (environ w) GET = None" and rv: "rv = live_value ?w2 ?k"
    by (auto simp: redis_get_def split: option.splits)
  show ?thesis
    using sf gf by (simp add: w' doc rv getitem_def)
qed

lemma test_cache_try_returns:
  assumes "list_all (\<lambda>c. redis_fault (environ w) c = None) [SETEX, GET, INFO, DBSIZE]"
  shows "\<exists>doc w'. test_cache_try f w = (Inr doc, w')"
  using assms
  by (simp add: test_cache_try_def Let_def redis_setex_def redis_get_def redis_info_def redis_dbsize_def)

lemma test_cache_success:
  assumes "test_cache f rq w = (Inr doc, w')" and "getitem doc ''status'' = Some (JStr ''success'')"
  shows "\<exists>v. environ v = environ w \<and> redis_data v = redis_data w \<and> test_cache_try f v = (Inr doc, w')"
proof -
  obtain r1 w1 where l: "log_request ''/api/test-cache'' (Some rq) w = (r1, w1)"
    by (cases "log_request ''/api/test-cache'' (Some rq) w")
  obtain r2 w2 where p: "get_redis_connection w1 = (r2, w2)"
    by (cases "get_redis_connection w1")
  have e: "environ w2 = environ w" "redis_data w2 = redis_data w"
    using log_request_environ [OF l] log_request_redis_data [OF l]
      get_redis_connection_environ [OF p] get_redis_connection_db [OF p] by simp_all
  from assms l p have "test_cache_try f w2 = (Inr doc, w')"
    by (auto simp: test_cache_def getitem_def split: sum.splits option.splits prod.splits if_splits)
  with e show ?thesis by blast
qed

lemma test_cache_facts:
  assumes "test_cache f rq w = (Inr doc, w')" and "getitem doc ''status'' = Some (JStr ''success'')"
  shows "redis_fault (environ w) SETEX = None \<and> redis_fault (environ w) GET = None \<and>
         environ w' = environ w \<and>
         redis_data w' =
           f (store (''test:'' @ str_int (clock (environ w)))
                (''Hello from Redis at '' @ now_isoformat (environ w), Some (clock (environ w) + 60))
                (redis_data w)) \<and>
         getitem doc ''test_key'' = Some (JStr (''test:'' @ str_int (clock (environ w)))) \<and>
         getitem doc ''test_value'' = Some (JStr (''Hello from Redis at '' @ now_isoformat (environ w))) \<and>
         getitem doc ''retrieved_value'' =
           Some (case live_value w' (''test:'' @ str_int (clock (environ w))) of
                   Some x \<Rightarrow> JStr x | None \<Rightarrow> JNull)"
proof -
  obtain v where e: "environ v = environ w" "redis_data v = redis_data w"
    and t: "test_cache_try f v = (Inr doc, w')"
    using test_cache_success [OF assms] by blast
  show ?thesis
    using test_cache_try_document [OF t] by (simp add: e)
qed

lemma live_value_entry:
  "map_of (redis_data w) k = Some (v, Some t) \<Longrightarrow> clock (environ w) < t \<Longrightarrow> live_value w k = Some v"
  by (simp add: live_value_def)

lemma test_cache_disturbed:
  "document_of (test_cache same_second_request browser world0) =
     [(''status'', JStr ''success''),
      (''test_key'', JStr ''test:1700000000''),
      (''test_value'', JStr ''Hello from Redis at 2023-11-14T22:13:20.000123''),
      (''retrieved_value'', JStr ''Hello from Redis at 2023-11-14T22:13:20.000391''),
      (''redis_version'', JStr ''7.2.4''),
      (''memory_usage'', JStr ''1.05M''),
      (''total_keys'', JInt 2),
      (''timestamp'', JStr ''2023-11-14T22:13:20.000123'')]"
  by code_simp

section \<open>The claims\<close>

text \<open>
  C1. Whatever the two probes find, the document \<open>/health\<close> returns has status
  \<open>degraded\<close> exactly when at least one of its service entries is \<open>unhealthy\<close>, that is
  exactly when a probe found its dependency unreachable, and \<open>healthy\<close> exactly when all
  entries are \<open>healthy\<close>; there is no third status. A document is returned whenever no
  interrupt arrives.
\<close>

theorem health_degraded_iff_unreachable:
  "(no_interrupt w \<longrightarrow> (\<exists>doc w'. health rq w = (Inr doc, w'))) \<and>
   (\<forall>doc w'. health rq w = (Inr doc, w') \<longrightarrow>
      (getitem doc ''status'' = Some (JStr ''degraded'')) =
        list_ex (\<lambda>check. snd check = JStr ''unhealthy'') (services_of doc) \<and>
      (getitem doc ''status'' = Some (JStr ''healthy'')) =
        list_all (\<lambda>check. snd check = JStr ''healthy'') (services_of doc) \<and>
      (getitem doc ''status'' = Some (JStr ''degraded'')) =
        (db_connect (environ w) \<noteq> None \<or> redis_ping (environ w) \<noteq> None) \<and>
      (getitem doc ''status'' = Some (JStr ''degraded'') \<or> getitem doc ''status'' = Some (JStr ''healthy'')))"
proof (intro conjI allI impI)
  assume "no_interrupt w"
  then show "\<exists>doc w'. health rq w = (Inr doc, w')" by (rule health_returns)
next
  fix doc w' assume h: "health rq w = (Inr doc, w')"
  note d = health_document [OF h]
  show "(getitem doc ''status'' = Some (JStr ''degraded'')) =
        list_ex (\<lambda>check. snd check = JStr ''unhealthy'') (services_of doc)"
    by (subst (1 2) d) (simp add: getitem_def services_of_def)
  show "(getitem doc ''status'' = Some (JStr ''healthy'')) =
        list_all (\<lambda>check. snd check = JStr ''healthy'') (services_of doc)"
    by (subst (1 2) d) (simp add: getitem_def services_of_def)
  show "(getitem doc ''status'' = Some (JStr ''degraded'')) =
        (db_connect (environ w) \<noteq> None \<or> redis_ping (environ w) \<noteq> None)"
    by (subst d) (simp add: getitem_def)
  show "getitem doc ''status'' = Some (JStr ''degraded'') \<or> getitem doc ''status'' = Some (JStr ''healthy'')"
    by (subst (1 2) d) (simp add: getitem_def)
qed

theorem health_degraded_iff_unreachable_witness:
  "no_interrupt (world0\<lparr>environ := db_outage\<rparr>) \<and>
   (\<exists>doc w'. health browser (world0\<lparr>environ := db_outage\<rparr>) = (Inr doc, w') \<and>
      getitem doc ''status'' = Some (JStr ''degraded'') \<and>
      list_ex (\<lambda>check. snd check = JStr ''unhealthy'') (services_of doc))"
proof -
  let ?w = "world0\<lparr>environ := db_outage\<rparr>"
  note claim = health_degraded_iff_unreachable [of ?w browser]
  have n: "no_interrupt ?w"
    by (simp add: no_interrupt_def catchable_def db_outage_def calm_def)
  from claim n obtain doc w' where h: "health browser ?w = (Inr doc, w')"
    by blast
  have down: "db_connect (environ ?w) \<noteq> None"
    by (simp add: db_outage_def)
  from claim h down have "getitem doc ''status'' = Some (JStr ''degraded'')"
    by blast
  moreover from claim h this have "list_ex (\<lambda>check. snd check = JStr ''unhealthy'') (services_of doc)"
    by blast
  ultimately show ?thesis
    using n h by blast
qed

text \<open>
  C2. A probe whose connection attempt fails with any library error (a refused
  connection, a rejected password, a timeout: all are instances of \<open>Exception\<close>) raises
  nothing: it returns \<open>None\<close> and prints the cause.
\<close>

theorem probes_report_failure:
  assumes "isinstance_Exception e"
  shows "(db_connect (environ w) = Some e \<longrightarrow>
            get_db_connection w = (Inr None, py_print (''Database connection error: '' @ str_exn e) w)) \<and>
         (redis_ping (environ w) = Some e \<longrightarrow>
            get_redis_connection w = (Inr None, py_print (''Redis connection error: '' @ str_exn e) w))"
  using assms by (simp add: get_db_connection_def psycopg2_connect_def get_redis_connection_def)

theorem probes_report_failure_witness:
  "get_db_connection (world0\<lparr>environ := db_outage\<rparr>) =
     (Inr None, py_print ''Database connection error: connection refused'' (world0\<lparr>environ := db_outage\<rparr>)) \<and>
   get_redis_connection (world0\<lparr>environ := redis_auth_failure\<rparr>) =
     (Inr None, py_print ''Redis connection error: Authentication required.'' (world0\<lparr>environ := redis_auth_failure\<rparr>)) \<and>
   get_redis_connection (world0\<lparr>environ := redis_timeout\<rparr>) =
     (Inr None, py_print ''Redis connection error: Timeout connecting to server'' (world0\<lparr>environ := redis_timeout\<rparr>))"
  using probes_report_failure [of "PyExn OperationalError ''connection refused''" "world0\<lparr>environ := db_outage\<rparr>"]
        probes_report_failure [of "PyExn AuthenticationError ''Authentication required.''" "world0\<lparr>environ := redis_auth_failure\<rparr>"]
        probes_report_failure [of "PyExn TimeoutError ''Timeout connecting to server''" "world0\<lparr>environ := redis_timeout\<rparr>"]
  by (simp add: db_outage_def redis_auth_failure_def redis_timeout_def calm_def)

text \<open>
  C3. The health document lists exactly one entry per dependency, \<open>database\<close> first and
  \<open>redis\<close> second, and each entry tells the outcome of its own probe: a failed database
  probe leaves the \<open>redis\<close> entry in place, and the other way round. A document is
  returned whenever no interrupt arrives.
\<close>

theorem health_one_check_per_dependency:
  "(no_interrupt w \<longrightarrow> (\<exists>doc w'. health rq w = (Inr doc, w'))) \<and>
   (\<forall>doc w'. health rq w = (Inr doc, w') \<longrightarrow>
      map fst (services_of doc) = [''database'', ''redis''] \<and>
      getitem (services_of doc) ''database'' =
        Some (JStr (if db_connect (environ w) = None then ''healthy'' else ''unhealthy'')) \<and>
      getitem (services_of doc) ''redis'' =
        Some (JStr (if redis_ping (environ w) = None then ''healthy'' else ''unhealthy'')))"
proof (intro conjI allI impI)
  assume "no_interrupt w"
  then show "\<exists>doc w'. health rq w = (Inr doc, w')" by (rule health_returns)
next
  fix doc w' assume h: "health rq w = (Inr doc, w')"
  note d = health_document [OF h]
  show "map fst (services_of doc) = [''database'', ''redis'']"
    by (subst d) (simp add: getitem_def services_of_def)
  show "getitem (services_of doc) ''database'' =
        Some (JStr (if db_connect (environ w) = None then ''healthy'' else ''unhealthy''))"
    by (subst d) (simp add: getitem_def services_of_def)
  show "getitem (services_of doc) ''redis'' =
        Some (JStr (if redis_ping (environ w) = None then ''healthy'' else ''unhealthy''))"
    by (subst d) (simp add: getitem_def services_of_def)
qed

theorem health_one_check_per_dependency_witness:
  "no_interrupt (world0\<lparr>environ := db_outage\<rparr>) \<and>
   (\<exists>doc w'. health browser (world0\<lparr>environ := db_outage\<rparr>) = (Inr doc, w') \<and>
      map fst (services_of doc) = [''database'', ''redis''] \<and>
      getitem (services_of doc) ''database'' = Some (JStr ''unhealthy'') \<and>
      getitem (services_of doc) ''redis'' = Some (JStr ''healthy''))"
proof -
  let ?w = "world0\<lparr>environ := db_outage\<rparr>"
  note claim = health_one_check_per_dependency [of ?w browser]
  have n: "no_interrupt ?w"
    by (simp add: no_interrupt_def catchable_def db_outage_def calm_def)
  from claim n obtain doc w' where h: "health browser ?w = (Inr doc, w')"
    by blast
  have env: "db_connect (environ ?w) \<noteq> None" "redis_ping (environ ?w) = None"
    by (simp_all add: db_outage_def calm_def)
  from claim h have
    "map fst (services_of doc) = [''database'', ''redis'']"
    "getitem (services_of doc) ''database'' =
        Some (JStr (if db_connect (environ ?w) = None then ''healthy'' else ''unhealthy''))"
    "getitem (services_of doc) ''redis'' =
        Some (JStr (if redis_ping (environ ?w) = None then ''healthy'' else ''unhealthy''))"
    by blast+
  with env have
    "map fst (services_of doc) = [''database'', ''redis''] \<and>
     getitem (services_of doc) ''database'' = Some (JStr ''unhealthy'') \<and>
     getitem (services_of doc) ''redis'' = Some (JStr ''healthy'')"
    by simp
  with n h show ?thesis by auto
qed

text \<open>
  C4. With both dependencies reachable \<open>/health\<close> returns status \<open>healthy\<close> and both
  services \<open>healthy\<close>; with the database unreachable and the cache reachable it returns
  status \<open>degraded\<close>, \<open>database\<close> \<open>unhealthy\<close> and \<open>redis\<close> \<open>healthy\<close>. The documents are
  compared without their timestamp.
\<close>

theorem health_scenarios:
  "(no_interrupt w \<and> db_connect (environ w) = None \<and> redis_ping (environ w) = None \<longrightarrow>
      (\<exists>doc w'. health rq w = (Inr doc, w') \<and>
         without ''timestamp'' doc =
           [(''status'', JStr ''healthy''),
            (''services'', JObj [(''database'', JStr ''healthy''), (''redis'', JStr ''healthy'')])])) \<and>
   (no_interrupt w \<and> db_connect (environ w) \<noteq> None \<and> redis_ping (environ w) = None \<longrightarrow>
      (\<exists>doc w'. health rq w = (Inr doc, w') \<and>
         without ''timestamp'' doc =
           [(''status'', JStr ''degraded''),
            (''services'', JObj [(''database'', JStr ''unhealthy''), (''redis'', JStr ''healthy'')])]))"
proof (intro conjI impI)
  assume a: "no_interrupt w \<and> db_connect (environ w) = None \<and> redis_ping (environ w) = None"
  then obtain doc w' where h: "health rq w = (Inr doc, w')"
    using health_returns by blast
  have "without ''timestamp'' doc =
           [(''status'', JStr ''healthy''),
            (''services'', JObj [(''database'', JStr ''healthy''), (''redis'', JStr ''healthy'')])]"
    using a by (subst health_document [OF h]) (simp add: without_def)
  with h show "\<exists>doc w'. health rq w = (Inr doc, w') \<and>
         without ''timestamp'' doc =
           [(''status'', JStr ''healthy''),
            (''services'', JObj [(''database'', JStr ''healthy''), (''redis'', JStr ''healthy'')])]"
    by blast
next
  assume a: "no_interrupt w \<and> db_connect (environ w) \<noteq> None \<and> redis_ping (environ w) = None"
  then obtain doc w' where h: "health rq w = (Inr doc, w')"
    using health_returns by blast
  have "without ''timestamp'' doc =
           [(''status'', JStr ''degraded''),
            (''services'', JObj [(''database'', JStr ''unhealthy''), (''redis'', JStr ''healthy'')])]"
    using a by (subst health_document [OF h]) (simp add: without_def)
  with h show "\<exists>doc w'. health rq w = (Inr doc, w') \<and>
         without ''timestamp'' doc =
           [(''status'', JStr ''degraded''),
            (''services'', JObj [(''database'', JStr ''unhealthy''), (''redis'', JStr ''healthy'')])]"
    by blast
qed

theorem health_scenarios_witness:
  "(\<exists>doc w'. health browser world0 = (Inr doc, w') \<and>
      without ''timestamp'' doc =
        [(''status'', JStr ''healthy''),
         (''services'', JObj [(''database'', JStr ''healthy''), (''redis'', JStr ''healthy'')])]) \<and>
   (\<exists>doc w'. health browser (world0\<lparr>environ := db_outage\<rparr>) = (Inr doc, w') \<and>
      without ''timestamp'' doc =
        [(''status'', JStr ''degraded''),
         (''services'', JObj [(''database'', JStr ''unhealthy''), (''redis'', JStr ''healthy'')])])"
proof -
  have a: "no_interrupt world0 \<and> db_connect (environ world0) = None \<and> redis_ping (environ world0) = None"
    by (simp add: no_interrupt_def catchable_def world0_def calm_def)
  have b: "no_interrupt (world0\<lparr>environ := db_outage\<rparr>) \<and>
           db_connect (environ (world0\<lparr>environ := db_outage\<rparr>)) \<noteq> None \<and>
           redis_ping (environ (world0\<lparr>environ := db_outage\<rparr>)) = None"
    by (simp add: no_interrupt_def catchable_def db_outage_def calm_def)
  show ?thesis
    using health_scenarios [of world0 browser] health_scenarios [of "world0\<lparr>environ := db_outage\<rparr>" browser] a b
    by blast
qed

text \<open>
  C5, amended. Over successive calls of \<open>/api/stats\<close> with no write by anyone else in
  between, the request counts returned are non-decreasing as long as the database
  answers every call: the connection is made and the three statistics queries succeed.
\<close>

theorem api_stats_non_decreasing_while_db_answers:
  assumes "list_all (\<lambda>c. db_answers (snd c)) calls"
  shows "sorted (api_stats_calls py_int calls w)"
  using api_stats_calls_bounded [OF assms] by simp

theorem api_stats_non_decreasing_while_db_answers_witness:
  "list_all (\<lambda>c. db_answers (snd c)) [(browser, calm), (monitor, later), (browser, redis_outage)] \<and>
   sorted (api_stats_calls py_int0 [(browser, calm), (monitor, later), (browser, redis_outage)] world0)"
proof -
  have a: "list_all (\<lambda>c. db_answers (snd c)) [(browser, calm), (monitor, later), (browser, redis_outage)]"
    by (simp add: db_answers_def calm_def later_def redis_outage_def)
  from a api_stats_non_decreasing_while_db_answers [OF a] show ?thesis by simp
qed

text \<open>
  C5 as stated, for every sequence of calls, fails: a call during a database outage
  reports 0. Starting from a stored count of 5, a first call reports 6 and a second call,
  made while the database refuses connections, reports 0.
\<close>

theorem api_stats_decreases_after_outage:
  "\<not> sorted (api_stats_calls py_int0 [(browser, calm), (browser, db_outage)] world0)"
  by (subst api_stats_after_outage) simp

text \<open>
  C6, amended. A view of the home page during which Redis answers the ping and the
  \<open>INCR\<close> (no fault, the counter an integer below the 64-bit maximum) increments the
  counter \<open>cache_hits\<close> by exactly one, whatever else happens in the request: the handler
  looks nothing up in the cache, and the increment stands even when rendering the page
  fails afterwards. A view during which Redis is unreachable leaves the counter as it is.
\<close>

theorem home_increments_cache_hits_when_redis_answers:
  "(no_interrupt w \<and> redis_ping (environ w) = None \<and> redis_fault (environ w) INCR = None \<and>
    cache_hits_counter w = Some n \<and> n < 9223372036854775807 \<longrightarrow>
      cache_hits_counter (snd (home render py_int rq w)) = Some (n + 1)) \<and>
   (no_interrupt w \<and> redis_ping (environ w) \<noteq> None \<longrightarrow>
      cache_hits_counter (snd (home render py_int rq w)) = cache_hits_counter w)"
proof (intro conjI impI)
  assume a: "no_interrupt w \<and> redis_ping (environ w) = None \<and> redis_fault (environ w) INCR = None \<and>
    cache_hits_counter w = Some n \<and> n < 9223372036854775807"
  obtain w1 where l: "log_request ''/'' (Some rq) w = (Inr (), w1)"
    using log_request_returns a by blast
  have e1: "environ w1 = environ w" and r1: "redis_data w1 = redis_data w"
    using log_request_environ [OF l] log_request_redis_data [OF l] by simp_all
  have p: "get_redis_connection w1 = (Inr (Some RedisClient), w1)"
    using a e1 by (simp add: get_redis_connection_def)
  have c1: "cache_hits_counter w1 = Some n"
    using a cache_hits_counter_cong [OF e1 r1] by simp
  then obtain m w3 where i: "redis_incr ''cache_hits'' w1 = Inr (m, w3)"
    using redis_incr_returns [of w1 n] a e1 by auto
  have "cache_hits_counter w3 = Some (n + 1)"
    using redis_incr_counts [OF i] c1 by auto
  moreover have "cache_hits_counter (snd (home render py_int rq w)) = cache_hits_counter w3"
    using l p by (rule home_world) (simp add: i)
  ultimately show "cache_hits_counter (snd (home render py_int rq w)) = Some (n + 1)"
    by simp
next
  assume a: "no_interrupt w \<and> redis_ping (environ w) \<noteq> None"
  obtain w1 where l: "log_request ''/'' (Some rq) w = (Inr (), w1)"
    using log_request_returns a by blast
  have e1: "environ w1 = environ w" and r1: "redis_data w1 = redis_data w"
    using log_request_environ [OF l] log_request_redis_data [OF l] by simp_all
  have n1: "no_interrupt w1"
    using a no_interrupt_environ [OF e1] by simp
  obtain r w2 where p: "get_redis_connection w1 = (Inr r, w2)" and none: "r = None"
    using get_redis_connection_returns [OF n1] a e1 by auto
  have "cache_hits_counter (snd (home render py_int rq w)) = cache_hits_counter w2"
    using l p by (rule home_world) (simp add: none)
  also have "\<dots> = cache_hits_counter w1"
    using get_redis_connection_environ [OF p] get_redis_connection_db [OF p]
      cache_hits_counter_cong [of w2 w1] by simp
  also have "\<dots> = cache_hits_counter w"
    using e1 r1 by (rule cache_hits_counter_cong)
  finally show "cache_hits_counter (snd (home render py_int rq w)) = cache_hits_counter w" .
qed

theorem home_increments_cache_hits_when_redis_answers_witness:
  "cache_hits_counter world0 = Some 41 \<and>
   cache_hits_counter (snd (home render0 py_int0 browser world0)) = Some 42 \<and>
   cache_hits_counter (snd (home render0 py_int0 browser (world0\<lparr>environ := redis_timeout\<rparr>))) = Some 41"
proof -
  have c: "cache_hits_counter world0 = Some 41"
    by code_simp
  have a: "no_interrupt world0 \<and> redis_ping (environ world0) = None \<and>
           redis_fault (environ world0) INCR = None \<and> (41::int) < 9223372036854775807"
    by (simp add: no_interrupt_def catchable_def world0_def calm_def)
  have c': "cache_hits_counter (world0\<lparr>environ := redis_timeout\<rparr>) = Some 41"
    by code_simp
  have b: "no_interrupt (world0\<lparr>environ := redis_timeout\<rparr>) \<and>
           redis_ping (environ (world0\<lparr>environ := redis_timeout\<rparr>)) \<noteq> None"
    by (simp add: no_interrupt_def catchable_def redis_timeout_def calm_def)
  from home_increments_cache_hits_when_redis_answers [of world0 41 render0 py_int0 browser] a c
  have "cache_hits_counter (snd (home render0 py_int0 browser world0)) = Some 42"
    by simp
  moreover
  from home_increments_cache_hits_when_redis_answers [of "world0\<lparr>environ := redis_timeout\<rparr>" 41 render0 py_int0 browser] b c'
  have "cache_hits_counter (snd (home render0 py_int0 browser (world0\<lparr>environ := redis_timeout\<rparr>))) = Some 41"
    by simp
  ultimately show ?thesis using c by simp
qed

text \<open>
  C6 as stated, on every view, fails: \<open>home\<close> increments only \<open>if r\<close>. With the
  counter at 41 and Redis refusing the connection, the counter is not 42 after the view.
\<close>

theorem home_leaves_cache_hits_during_redis_outage:
  "cache_hits_counter (world0\<lparr>environ := redis_outage\<rparr>) = Some 41 \<and>
   cache_hits_counter (snd (home render0 py_int0 browser (world0\<lparr>environ := redis_outage\<rparr>))) \<noteq> Some (41 + 1)"
  using home_during_redis_outage by simp

text \<open>
  C7. Two runs of \<open>/health\<close> whose probes have the same outcomes return the same
  document but for the timestamp, whatever else differs between the two worlds and the
  two requests; with equal timestamps the documents are equal.
\<close>

theorem health_document_deterministic:
  assumes "health rq1 w1 = (Inr doc1, w1')" and "health rq2 w2 = (Inr doc2, w2')"
    and "(db_connect (environ w1) = None) = (db_connect (environ w2) = None)"
    and "(redis_ping (environ w1) = None) = (redis_ping (environ w2) = None)"
  shows "without ''timestamp'' doc1 = without ''timestamp'' doc2 \<and>
         getitem doc1 ''status'' = getitem doc2 ''status'' \<and>
         (now_isoformat (environ w1) = now_isoformat (environ w2) \<longrightarrow> doc1 = doc2)"
  using assms(3,4)
  by (subst (1 2 3) health_document [OF assms(1)], subst (1 2 3) health_document [OF assms(2)])
     (simp add: without_def getitem_def)

theorem health_document_deterministic_witness:
  "\<exists>doc1 doc2 w1' w2'.
     health browser world0 = (Inr doc1, w1') \<and>
     health monitor (world0\<lparr>environ := later, db := db world0\<lparr>metrics := []\<rparr>\<rparr>) = (Inr doc2, w2') \<and>
     without ''timestamp'' doc1 = without ''timestamp'' doc2 \<and>
     getitem doc1 ''status'' = getitem doc2 ''status''"
proof -
  let ?w2 = "world0\<lparr>environ := later, db := db world0\<lparr>metrics := []\<rparr>\<rparr>"
  have "no_interrupt world0"
    by (simp add: no_interrupt_def catchable_def world0_def calm_def)
  then obtain doc1 w1' where h1: "health browser world0 = (Inr doc1, w1')"
    using health_returns by blast
  have "no_interrupt ?w2"
    by (simp add: no_interrupt_def catchable_def later_def calm_def)
  then obtain doc2 w2' where h2: "health monitor ?w2 = (Inr doc2, w2')"
    using health_returns by blast
  have same: "(db_connect (environ world0) = None) = (db_connect (environ ?w2) = None)"
             "(redis_ping (environ world0) = None) = (redis_ping (environ ?w2) = None)"
    by (simp_all add: world0_def later_def calm_def)
  from health_document_deterministic [OF h1 h2 same] h1 h2 show ?thesis
    by blast
qed

text \<open>
  C8, amended. A call of \<open>/api/test-cache\<close> that answers \<open>success\<close> has sent its \<open>SETEX\<close>
  and its \<open>GET\<close>: the key is built from the current second, so two successful calls in
  different seconds use different keys; the keyspace it leaves is the one \<open>SETEX\<close> wrote
  the value into with a 60 second expiry, followed by what other clients did before the
  \<open>GET\<close>; and \<open>retrieved_value\<close> is what the key holds then. When the other clients left
  the key's entry as \<open>SETEX\<close> wrote it, \<open>retrieved_value\<close> equals \<open>test_value\<close>. The call
  succeeds whenever Redis answers the ping and the four commands.
\<close>

theorem test_cache_round_trip_when_undisturbed:
  "(no_interrupt w \<and> redis_ping (environ w) = None \<and>
    list_all (\<lambda>c. redis_fault (environ w) c = None) [SETEX, GET, INFO, DBSIZE] \<longrightarrow>
      (\<exists>doc w'. test_cache f rq w = (Inr doc, w') \<and> getitem doc ''status'' = Some (JStr ''success''))) \<and>
   (\<forall>doc w'. test_cache f rq w = (Inr doc, w') \<and> getitem doc ''status'' = Some (JStr ''success'') \<longrightarrow>
      redis_fault (environ w) SETEX = None \<and> redis_fault (environ w) GET = None \<and>
      getitem doc ''test_key'' = Some (JStr (''test:'' @ str_int (clock (environ w)))) \<and>
      getitem doc ''test_value'' = Some (JStr (''Hello from Redis at '' @ now_isoformat (environ w))) \<and>
      redis_data w' =
        f (store (''test:'' @ str_int (clock (environ w)))
             (''Hello from Redis at '' @ now_isoformat (environ w), Some (clock (environ w) + 60))
             (redis_data w)) \<and>
      getitem doc ''retrieved_value'' =
        Some (case live_value w' (''test:'' @ str_int (clock (environ w))) of
                Some x \<Rightarrow> JStr x | None \<Rightarrow> JNull) \<and>
      (map_of (redis_data w') (''test:'' @ str_int (clock (environ w))) =
         Some (''Hello from Redis at '' @ now_isoformat (environ w), Some (clock (environ w) + 60)) \<longrightarrow>
           getitem doc ''retrieved_value'' = getitem doc ''test_value'') \<and>
      (\<forall>f2 rq2 w2 doc2 w2'.
         test_cache f2 rq2 w2 = (Inr doc2, w2') \<and> getitem doc2 ''status'' = Some (JStr ''success'') \<and>
         clock (environ w2) \<noteq> clock (environ w) \<longrightarrow>
           getitem doc2 ''test_key'' \<noteq> getitem doc ''test_key''))"
proof (intro conjI allI impI)
  assume a: "no_interrupt w \<and> redis_ping (environ w) = None \<and>
    list_all (\<lambda>c. redis_fault (environ w) c = None) [SETEX, GET, INFO, DBSIZE]"
  obtain w1 where l: "log_request ''/api/test-cache'' (Some rq) w = (Inr (), w1)"
    using log_request_returns a by blast
  have e1: "environ w1 = environ w"
    using l by (rule log_request_environ)
  have p: "get_redis_connection w1 = (Inr (Some RedisClient), w1)"
    using a e1 by (simp add: get_redis_connection_def)
  obtain doc w3 where t: "test_cache_try f w1 = (Inr doc, w3)"
    using test_cache_try_returns [of w1 f] a e1 by auto
  have "test_cache f rq w = (Inr doc, w3)"
    using l p t by (simp add: test_cache_def)
  moreover have "getitem doc ''status'' = Some (JStr ''success'')"
    using test_cache_try_document [OF t] by simp
  ultimately show "\<exists>doc w'. test_cache f rq w = (Inr doc, w') \<and> getitem doc ''status'' = Some (JStr ''success'')"
    by blast
next
  fix doc w'
  assume a: "test_cache f rq w = (Inr doc, w') \<and> getitem doc ''status'' = Some (JStr ''success'')"
  then have d: "redis_fault (environ w) SETEX = None \<and> redis_fault (environ w) GET = None \<and>
         environ w' = environ w \<and>
         redis_data w' =
           f (store (''test:'' @ str_int (clock (environ w)))
                (''Hello from Redis at '' @ now_isoformat (environ w), Some (clock (environ w) + 60))
                (redis_data w)) \<and>
         getitem doc ''test_key'' = Some (JStr (''test:'' @ str_int (clock (environ w)))) \<and>
         getitem doc ''test_value'' = Some (JStr (''Hello from Redis at '' @ now_isoformat (environ w))) \<and>
         getitem doc ''retrieved_value'' =
           Some (case live_value w' (''test:'' @ str_int (clock (environ w))) of
                   Some x \<Rightarrow> JStr x | None \<Rightarrow> JNull)"
    using test_cache_facts by blast
  show "redis_fault (environ w) SETEX = None" using d by simp
  show "redis_fault (environ w) GET = None" using d by simp
  show "getitem doc ''test_key'' = Some (JStr (''test:'' @ str_int (clock (environ w))))"
    using d by simp
  show "getitem doc ''test_value'' = Some (JStr (''Hello from Redis at '' @ now_isoformat (environ w)))"
    using d by simp
  show "redis_data w' =
        f (store (''test:'' @ str_int (clock (environ w)))
             (''Hello from Redis at '' @ now_isoformat (environ w), Some (clock (environ w) + 60))
             (redis_data w))"
    using d by simp
  show "getitem doc ''retrieved_value'' =
        Some (case live_value w' (''test:'' @ str_int (clock (environ w))) of
                Some x \<Rightarrow> JStr x | None \<Rightarrow> JNull)"
    using d by simp
  {
    assume kept: "map_of (redis_data w') (''test:'' @ str_int (clock (environ w))) =
         Some (''Hello from Redis at '' @ now_isoformat (environ w), Some (clock (environ w) + 60))"
    have "clock (environ w') < clock (environ w) + 60"
      using d by simp
    with kept have "live_value w' (''test:'' @ str_int (clock (environ w))) =
        Some (''Hello from Redis at '' @ now_isoformat (environ w))"
      by (rule live_value_entry)
    then show "getitem doc ''retrieved_value'' = getitem doc ''test_value''"
      using d by simp
  }
  fix f2 rq2 w2 doc2 w2'
  assume b: "test_cache f2 rq2 w2 = (Inr doc2, w2') \<and> getitem doc2 ''status'' = Some (JStr ''success'') \<and>
         clock (environ w2) \<noteq> clock (environ w)"
  then have k2: "getitem doc2 ''test_key'' = Some (JStr (''test:'' @ str_int (clock (environ w2))))"
    using test_cache_facts [of f2 rq2 w2 doc2 w2'] by simp
  have "str_int (clock (environ w2)) \<noteq> str_int (clock (environ w))"
    using b str_int_inject by blast
  then show "getitem doc2 ''test_key'' \<noteq> getitem doc ''test_key''"
    using d k2 by simp
qed

theorem test_cache_round_trip_when_undisturbed_witness:
  "\<exists>doc w' doc2 w2'.
     test_cache alone browser world0 = (Inr doc, w') \<and>
     getitem doc ''status'' = Some (JStr ''success'') \<and>
     getitem doc ''test_key'' = Some (JStr ''test:1700000000'') \<and>
     map_of (redis_data w') ''test:1700000000'' =
       Some (''Hello from Redis at 2023-11-14T22:13:20.000123'', Some 1700000060) \<and>
     getitem doc ''retrieved_value'' = getitem doc ''test_value'' \<and>
     test_cache alone monitor (w'\<lparr>environ := later\<rparr>) = (Inr doc2, w2') \<and>
     getitem doc2 ''status'' = Some (JStr ''success'') \<and>
     getitem doc2 ''test_key'' \<noteq> getitem doc ''test_key''"
proof -
  have a: "no_interrupt world0 \<and> redis_ping (environ world0) = None \<and>
    list_all (\<lambda>c. redis_fault (environ world0) c = None) [SETEX, GET, INFO, DBSIZE]"
    by (simp add: no_interrupt_def catchable_def world0_def calm_def)
  note c1 = test_cache_round_trip_when_undisturbed [of world0 alone browser]
  from c1 a obtain doc w' where t: "test_cache alone browser world0 = (Inr doc, w')"
    and s: "getitem doc ''status'' = Some (JStr ''success'')"
    by blast
  have k0: "str_int (clock (environ world0)) = ''1700000000''"
    by code_simp
  from c1 t s have "getitem doc ''test_key'' = Some (JStr (''test:'' @ str_int (clock (environ world0))))"
    by blast
  then have k: "getitem doc ''test_key'' = Some (JStr ''test:1700000000'')"
    using k0 by simp
  from c1 t s have "redis_data w' =
        alone (store (''test:'' @ str_int (clock (environ world0)))
             (''Hello from Redis at '' @ now_isoformat (environ world0), Some (clock (environ world0) + 60))
             (redis_data world0))"
    by blast
  then have m: "map_of (redis_data w') ''test:1700000000'' =
       Some (''Hello from Redis at 2023-11-14T22:13:20.000123'', Some 1700000060)"
    using k0 by (simp add: alone_def map_of_store) (simp add: world0_def calm_def)
  have m': "map_of (redis_data w') (''test:'' @ str_int (clock (environ world0))) =
         Some (''Hello from Redis at '' @ now_isoformat (environ world0), Some (clock (environ world0) + 60))"
    using m k0 by (simp add: world0_def calm_def)
  from c1 t s m' have r: "getitem doc ''retrieved_value'' = getitem doc ''test_value''"
    by blast
  let ?w2 = "w'\<lparr>environ := later\<rparr>"
  have a2: "no_interrupt ?w2 \<and> redis_ping (environ ?w2) = None \<and>
    list_all (\<lambda>c. redis_fault (environ ?w2) c = None) [SETEX, GET, INFO, DBSIZE]"
    by (simp add: no_interrupt_def catchable_def later_def calm_def)
  from test_cache_round_trip_when_undisturbed [of ?w2 alone monitor] a2
  obtain doc2 w2' where t2: "test_cache alone monitor ?w2 = (Inr doc2, w2')"
    and s2: "getitem doc2 ''status'' = Some (JStr ''success'')"
    by blast
  have "clock (environ ?w2) \<noteq> clock (environ world0)"
    by (simp add: later_def calm_def world0_def)
  with c1 t s t2 s2 have "getitem doc2 ''test_key'' \<noteq> getitem doc ''test_key''"
    by blast
  with t s k m r t2 s2 show ?thesis by blast
qed

text \<open>
  C8 as stated, for every successful call, fails: the key is per second, the value per
  microsecond, and nothing keeps another request of the same second from writing the key
  between the \<open>SETEX\<close> and the \<open>GET\<close>. The call below succeeds and reads back the other
  request's value.
\<close>

theorem test_cache_reads_another_requests_value:
  "getitem (document_of (test_cache same_second_request browser world0)) ''status'' = Some (JStr ''success'') \<and>
   getitem (document_of (test_cache same_second_request browser world0)) ''retrieved_value'' \<noteq>
     getitem (document_of (test_cache same_second_request browser world0)) ''test_value''"
  by (subst (1 2 3) test_cache_disturbed) (simp add: getitem_def)

text \<open>
  C9. The \<open>/health\<close> of the first application takes nothing from any dependency: its
  document is built from the clock, the memory figure and the version alone, and its
  status is the constant \<open>healthy\<close>.
\<close>

theorem health_images_always_healthy:
  "getitem (health_images h) ''status'' = Some (JStr ''healthy'') \<and>
   map fst (health_images h) = [''status'', ''timestamp'', ''memory_mb'', ''version'']"
  by (simp add: health_images_def getitem_def)

text \<open>
  C10. When the database does not answer (the connection fails or one of the three
  statistics queries raises), the document of \<open>get_system_stats\<close>, and so of \<open>/api/stats\<close>,
  has \<open>total_requests\<close>, \<open>table_count\<close> and \<open>db_connections\<close> present with value 0, whatever
  count the database holds. A document is returned whenever no interrupt arrives.
\<close>

theorem db_outage_reports_zero:
  "(no_interrupt w \<longrightarrow> (\<exists>stats w'. api_stats py_int rq w = (Inr stats, w'))) \<and>
   (\<forall>stats w'.
      \<not> db_answers (environ w) \<and>
      (get_system_stats py_int w = (Inr stats, w') \<or> api_stats py_int rq w = (Inr stats, w')) \<longrightarrow>
        getitem stats ''total_requests'' = Some (JInt 0) \<and>
        getitem stats ''table_count'' = Some (JInt 0) \<and>
        getitem stats ''db_connections'' = Some (JInt 0))"
proof (intro conjI allI impI)
  assume "no_interrupt w"
  then show "\<exists>stats w'. api_stats py_int rq w = (Inr stats, w')"
    by (rule api_stats_returns)
next
  fix stats w'
  assume a: "\<not> db_answers (environ w) \<and>
      (get_system_stats py_int w = (Inr stats, w') \<or> api_stats py_int rq w = (Inr stats, w'))"
  then have down: "\<not> db_answers (environ w)" by simp
  from a consider "get_system_stats py_int w = (Inr stats, w')" | "api_stats py_int rq w = (Inr stats, w')"
    by blast
  then have z: "getitem stats ''total_requests'' = Some (JInt 0) \<and>
        getitem stats ''table_count'' = Some (JInt 0) \<and>
        getitem stats ''db_connections'' = Some (JInt 0)"
  proof cases
    case 1
    then show ?thesis using down by (rule get_system_stats_outage)
  next
    case 2
    then obtain w1 where l: "log_request ''/api/stats'' (Some rq) w = (Inr (), w1)"
      and g: "get_system_stats py_int w1 = (Inr stats, w')"
      by (auto simp: api_stats_def split: prod.splits sum.splits)
    have "\<not> db_answers (environ w1)"
      using down log_request_environ [OF l] by simp
    with g show ?thesis by (rule get_system_stats_outage)
  qed
  from z show "getitem stats ''total_requests'' = Some (JInt 0)" by simp
  from z show "getitem stats ''table_count'' = Some (JInt 0)" by simp
  from z show "getitem stats ''db_connections'' = Some (JInt 0)" by simp
qed

theorem db_outage_reports_zero_witness:
  "stored_total world0 = 5 \<and>
   (\<exists>stats w'. api_stats py_int0 browser (world0\<lparr>environ := db_outage\<rparr>) = (Inr stats, w') \<and>
      getitem stats ''total_requests'' = Some (JInt 0) \<and>
      getitem stats ''table_count'' = Some (JInt 0) \<and>
      getitem stats ''db_connections'' = Some (JInt 0)) \<and>
   (\<exists>stats w'. api_stats py_int0 browser (world0\<lparr>environ := stats_down\<rparr>) = (Inr stats, w') \<and>
      getitem stats ''total_requests'' = Some (JInt 0) \<and>
      getitem stats ''table_count'' = Some (JInt 0) \<and>
      getitem stats ''db_connections'' = Some (JInt 0))"
proof -
  have t: "stored_total world0 = 5"
    by (simp add: stored_total_def world0_def)
  have n1: "no_interrupt (world0\<lparr>environ := db_outage\<rparr>)"
    by (simp add: no_interrupt_def catchable_def db_outage_def calm_def)
  have d1: "\<not> db_answers (environ (world0\<lparr>environ := db_outage\<rparr>))"
    by (simp add: db_answers_def db_outage_def)
  have n2: "no_interrupt (world0\<lparr>environ := stats_down\<rparr>)"
    by (simp add: no_interrupt_def catchable_def stats_down_def calm_def)
  have d2: "\<not> db_answers (environ (world0\<lparr>environ := stats_down\<rparr>))"
    by (simp add: db_answers_def stats_down_def)
  note c1 = db_outage_reports_zero [of "world0\<lparr>environ := db_outage\<rparr>" py_int0 browser]
  note c2 = db_outage_reports_zero [of "world0\<lparr>environ := stats_down\<rparr>" py_int0 browser]
  from c1 n1 obtain s1 w1 where a1: "api_stats py_int0 browser (world0\<lparr>environ := db_outage\<rparr>) = (Inr s1, w1)"
    by blast
  from c2 n2 obtain s2 w2 where a2: "api_stats py_int0 browser (world0\<lparr>environ := stats_down\<rparr>) = (Inr s2, w2)"
    by blast
  from c1 d1 a1 have z1: "getitem s1 ''total_requests'' = Some (JInt 0) \<and>
      getitem s1 ''table_count'' = Some (JInt 0) \<and> getitem s1 ''db_connections'' = Some (JInt 0)"
    by blast
  from c2 d2 a2 have z2: "getitem s2 ''total_requests'' = Some (JInt 0) \<and>
      getitem s2 ''table_count'' = Some (JInt 0) \<and> getitem s2 ''db_connections'' = Some (JInt 0)"
    by blast
  from t a1 z1 a2 z2 show ?thesis by blast
qed

end
